theory Spec2Isabelle
  imports Main
begin

chapter \<open>The manifest handlers of the registry (internal/registry/manifest.go)\<close>

text \<open>
  A shallow embedding of the handlers of \<^verbatim>\<open>src/internal/registry/manifest.go\<close>:
  \<open>handleTags\<close>, \<open>handleCatalog\<close>, \<open>handleReferrers\<close>, \<open>handleGet\<close>, \<open>handleHead\<close>,
  \<open>handlePut\<close> and \<open>checkIncompatibleManifest\<close>.

  The handlers talk to four collaborators through Go interfaces (manifest store, blob store,
  authorizer, auditor) and call library functions (SHA-256, JSON, media types, URL joining).
  Neither is under \<^verbatim>\<open>src/\<close>. Both are parameters of the model: a record \<open>collab\<close> of the
  collaborators' operations over abstract store states, and a record \<open>lib\<close> of the library
  functions. Every theorem holds for all of them. What the handlers do to the stores is
  explicit state passing; every call to a store or to the auditor is also appended to a trace, so
  that "is called with" and "is not reached" can be stated.
\<close>

section \<open>Go values: byte strings and errors\<close>

type_synonym bytes = string

text \<open>
  Go's \<open>error\<close> values, as far as the handlers tell them apart: the sentinel errors they test
  with \<open>errors.Is\<close>, the blob store's \<open>RedirectError{Location, Code}\<close> they extract with
  \<open>errors.As\<close>, \<open>strconv\<close>'s \<open>NumError{Func, Num, Err}\<close>, the combined error of
  \<open>multierr.Combine\<close>, and any other error with its text. A value stands for its whole wrap
  chain.
\<close>

datatype numErr = ErrSyntax | ErrRange

datatype err =
    ErrNameUnknown
  | ErrManifestUnknown
  | ErrAccessDenied
  | ErrInvalidArtifactName
  | ErrQuotaExceeded
  | RedirectError string nat
  | NumError string string numErr
  | ErrOther string
  | ErrMulti "err list"

fun errors_Is :: "err \<Rightarrow> err \<Rightarrow> bool" where
  "errors_Is (ErrMulti es) t = list_ex (\<lambda>e. errors_Is e t) es"
| "errors_Is e t = (e = t)"

section \<open>The Go library functions modelled in full\<close>

text \<open>
  \<open>strconv.Atoi\<close> of the Go standard library for a 64-bit \<open>int\<close>, following \<open>ParseInt(s, 10, 0)\<close>
  and the loop of \<open>ParseUint\<close>: an optional sign, then decimal digits only. It returns a value
  and an error together: 0 with \<open>ErrSyntax\<close> for an empty string or a non-digit, and the
  nearest bound of the type with \<open>ErrRange\<close> when the number does not fit. (Atoi's fast path
  for short strings gives the same results.)
\<close>

definition isDigit :: "char \<Rightarrow> bool" where
  "isDigit c = (48 \<le> (of_char c :: nat) \<and> (of_char c :: nat) \<le> 57)"

definition digitVal :: "char \<Rightarrow> nat" where
  "digitVal c = of_char c - 48"

definition maxUint64 :: nat where
  "maxUint64 = 18446744073709551615"

fun parseUintLoop :: "nat \<Rightarrow> string \<Rightarrow> nat \<times> numErr option" where
  "parseUintLoop n [] = (n, None)"
| "parseUintLoop n (c # cs) =
     (if \<not> isDigit c then (0, Some ErrSyntax)
      else if n \<ge> maxUint64 div 10 + 1 then (maxUint64, Some ErrRange)
      else if n * 10 + digitVal c > maxUint64 then (maxUint64, Some ErrRange)
      else parseUintLoop (n * 10 + digitVal c) cs)"

definition ParseUint :: "string \<Rightarrow> nat \<times> numErr option" where
  "ParseUint s = (if s = [] then (0, Some ErrSyntax) else parseUintLoop 0 s)"

definition ParseInt :: "string \<Rightarrow> int \<times> numErr option" where
  "ParseInt s0 =
     (if s0 = [] then (0, Some ErrSyntax)
      else
        let neg = (hd s0 = CHR ''-'');
            s = (if hd s0 = CHR ''+'' \<or> hd s0 = CHR ''-'' then tl s0 else s0);
            (un, e) = ParseUint s
        in if e = Some ErrSyntax then (0, e)
           else if \<not> neg \<and> un \<ge> 2 ^ 63 then (2 ^ 63 - 1, Some ErrRange)
           else if neg \<and> un > 2 ^ 63 then (- (2 ^ 63), Some ErrRange)
           else (if neg then - int un else int un, None))"

definition Atoi :: "string \<Rightarrow> int \<times> err option" where
  "Atoi s = (case ParseInt s of
               (i, None) \<Rightarrow> (i, None)
             | (i, Some k) \<Rightarrow> (i, Some (NumError ''Atoi'' s k)))"


text \<open>\<open>fmt.Sprint\<close> of a length (\<open>Sprint_nat\<close>) and of an \<open>int64\<close> (\<open>Sprint_int\<close>): decimal digits.\<close>

fun Sprint_nat :: "nat \<Rightarrow> string" where
  "Sprint_nat n =
     (if n < 10 then [''0123456789'' ! n]
      else Sprint_nat (n div 10) @ [''0123456789'' ! (n mod 10)])"

declare Sprint_nat.simps [simp del]

definition Sprint_int :: "int \<Rightarrow> string" where
  "Sprint_int i = (if i < 0 then ''-'' @ Sprint_nat (nat (- i)) else Sprint_nat (nat i))"

text \<open>
  \<open>strings.Split(s, "/")\<close> and \<open>strings.Join(elems, "/")\<close>. Split never returns an empty
  slice: \<open>Split("", "/") = [""]\<close>.
\<close>

fun Split :: "string \<Rightarrow> char \<Rightarrow> string list" where
  "Split [] sep = [[]]"
| "Split (c # cs) sep =
     (if c = sep then [] # Split cs sep
      else (case Split cs sep of
              [] \<Rightarrow> [[c]]
            | e # es \<Rightarrow> (c # e) # es))"

fun Join :: "string list \<Rightarrow> string \<Rightarrow> string" where
  "Join [] sep = []"
| "Join [e] sep = e"
| "Join (e # es) sep = e @ sep @ Join es sep"

section \<open>Data\<close>

text \<open>
  \<open>v1.Hash\<close> with its \<open>String()\<close>; \<open>manifest.Blob\<close> and \<open>manifest.Manifest\<close>; the fields the
  handlers read of \<open>v1.Descriptor\<close>, \<open>v1.IndexManifest\<close> and \<open>v1.Manifest\<close>; the response
  structs \<open>catalog\<close> and \<open>listTags\<close> (lines 43-50); and \<open>regError\<close>.
\<close>

record Hash =
  Algorithm :: string
  Hex :: string

definition String :: "Hash \<Rightarrow> string" where
  "String h = Algorithm h @ '':'' @ Hex h"

record Blob =
  Digest :: Hash
  Size :: int

record Manifest =
  ContentType :: string
  Blob :: Blob

record Descriptor =
  dMediaType :: string
  dSize :: int
  dDigest :: Hash
  dArtifactType :: string

record IndexManifest =
  SchemaVersion :: int
  iMediaType :: string
  Manifests :: "Descriptor list"

record v1Manifest =
  Config :: Descriptor
  Layers :: "Descriptor list"
  Subject :: "Descriptor option"

record catalog =
  Repos :: "string list"

record listTags =
  Name :: string
  Tags :: "string list"

record regError =
  Status :: nat
  Code :: string
  Message :: string

text \<open>The \<open>net/http\<close> status constants the handlers name, and \<open>types.OCIImageIndex\<close>.\<close>

definition StatusOK :: nat where "StatusOK = 200"
definition StatusCreated :: nat where "StatusCreated = 201"
definition StatusBadRequest :: nat where "StatusBadRequest = 400"
definition StatusNotFound :: nat where "StatusNotFound = 404"

definition OCIImageIndex :: string where
  "OCIImageIndex = ''application/vnd.oci.image.index.v1+json''"

text \<open>
  The authorizer's actions; and JSON values as \<open>encoding/json\<close> decodes them into \<open>any\<close>
  (an object keeps its members in order, duplicates included; a number keeps its literal).
\<close>

datatype action = ActionRead | ActionStat | ActionWrite

datatype jvalue =
    JNull
  | JBool bool
  | JNumber string
  | JString string
  | JArray "jvalue list"
  | JObject "(string \<times> jvalue) list"

section \<open>Requests, responses, the world and the collaborators\<close>

text \<open>
  What the handlers read of \<open>*http.Request\<close>: method, URL path, the parsed query
  (\<open>req.URL.Query()\<close>, key/value pairs in order), the headers, and the outcome of reading the
  whole body (\<open>io.Copy(buf, req.Body)\<close>: an error, or the bytes).

  What they write to the \<open>http.ResponseWriter\<close>: headers (\<open>Header().Set\<close>), the status of the
  first \<open>WriteHeader\<close>, and the bytes written.
\<close>

record request =
  Method :: string
  Path :: string
  Query :: "(string \<times> string) list"
  ReqHeader :: "(string \<times> string) list"
  Body :: "err + bytes"

record response =
  Header :: "string \<rightharpoonup> string"
  StatusCode :: "nat option"
  Written :: bytes

text \<open>
  The trace: one entry per call to the manifest store, the blob store or the auditor, with its
  arguments; the begin and the outcome of a database transaction; and warnings logged.
\<close>

datatype call =
    CallGet string string
  | CallPut string string Manifest "Blob list"
  | CallListTags string int string
  | CallList int
  | CallListDigests string
  | CallBlobGet string Hash bool
  | CallBlobStat string Hash
  | CallBlobPut string Hash string bytes
  | CallAuditPull string string
  | TxBegin
  | TxCommit
  | TxRollback
  | LogWarn string

text \<open>
  The world a handler runs in: the state \<open>db\<close> behind the manifest store (the database), the
  state \<open>blobs\<close> behind the blob store, the trace, and the response written so far.
\<close>

record ('d, 'b) world =
  db :: 'd
  blobs :: 'b
  calls :: "call list"
  resp :: response

text \<open>
  The collaborators, as the interfaces the handlers call (their implementations are not under
  \<^verbatim>\<open>src/\<close>, so they are parameters):
  \<^item> \<open>manifest.ManifestHandler\<close>: \<open>Get\<close>, \<open>Put\<close>, \<open>ListTags\<close>, \<open>List\<close>, \<open>ListDigests\<close>. A read
    returns an error or a value; \<open>Put\<close> returns an optional error and the new database state.
  \<^item> \<open>blob.BlobHandler\<close>: \<open>Get\<close> returns an error (a \<open>RedirectError\<close> among them) or a reader,
    and draining the reader (\<open>io.Copy\<close>) gives an error or the bytes. \<open>Stat\<close> and \<open>Put\<close> are the
    optional interfaces \<open>BlobStatHandler\<close> and \<open>BlobPutHandler\<close>: \<open>None\<close> when the type assertion
    fails.
  \<^item> \<open>authz.Authorizer\<close> and \<open>audit.ArtifactAuditor\<close>: an optional error.
  \<^item> \<open>respWrite\<close>: whether writing bytes to the client succeeds (\<open>io.Copy(resp, ...)\<close>).
\<close>

record ('d, 'b) collab =
  mGet :: "'d \<Rightarrow> string \<Rightarrow> string \<Rightarrow> err + Manifest"
  mPut :: "'d \<Rightarrow> string \<Rightarrow> string \<Rightarrow> Manifest \<Rightarrow> Blob list \<Rightarrow> err option \<times> 'd"
  mListTags :: "'d \<Rightarrow> string \<Rightarrow> int \<Rightarrow> string \<Rightarrow> err + string list"
  mList :: "'d \<Rightarrow> int \<Rightarrow> err + string list"
  mListDigests :: "'d \<Rightarrow> string \<Rightarrow> err + Hash list"
  bGet :: "'b \<Rightarrow> string \<Rightarrow> Hash \<Rightarrow> bool \<Rightarrow> err + (err + bytes)"
  bStat :: "('b \<Rightarrow> string \<Rightarrow> Hash \<Rightarrow> err + int) option"
  bPut :: "('b \<Rightarrow> string \<Rightarrow> Hash \<Rightarrow> string \<Rightarrow> bytes \<Rightarrow> err option \<times> 'b) option"
  Authorize :: "string \<Rightarrow> action \<Rightarrow> err option"
  AuthorizeReference :: "string \<Rightarrow> string \<Rightarrow> action \<Rightarrow> err option"
  AuditPull :: "string \<Rightarrow> string \<Rightarrow> err option"
  respWrite :: "bytes \<Rightarrow> err option"

text \<open>
  The library functions the handlers call, as parameters: \<open>v1.SHA256\<close>, \<open>v1.NewHash\<close>, the
  \<open>types.MediaType\<close> predicates, \<open>v1.ParseIndexManifest\<close>, \<open>v1.ParseManifest\<close>, the JSON parser
  behind \<open>json.Unmarshal\<close> (\<open>ParseJSON\<close>: a syntax error, or the value) with the case folding
  it matches field names by (\<open>EqualFold\<close>), \<open>json.Marshal\<close> of the three response structs,
  \<open>%q\<close> formatting (\<open>Quote\<close>), \<open>err.Error()\<close>, \<open>URL.JoinPath(elem).Path\<close> and
  \<open>http.Redirect\<close>.
\<close>

record lib =
  SHA256 :: "bytes \<Rightarrow> err + Hash"
  NewHash :: "string \<Rightarrow> err + Hash"
  IsIndex :: "string \<Rightarrow> bool"
  IsImage :: "string \<Rightarrow> bool"
  IsDistributable :: "string \<Rightarrow> bool"
  ParseIndexManifest :: "bytes \<Rightarrow> err + IndexManifest"
  ParseManifest :: "bytes \<Rightarrow> err + v1Manifest"
  ParseJSON :: "bytes \<Rightarrow> err + jvalue"
  EqualFold :: "string \<Rightarrow> string \<Rightarrow> bool"
  MarshalCatalog :: "catalog \<Rightarrow> err + bytes"
  MarshalListTags :: "listTags \<Rightarrow> err + bytes"
  MarshalIndex :: "IndexManifest \<Rightarrow> err + bytes"
  Quote :: "string \<Rightarrow> string"
  Error :: "err \<Rightarrow> string"
  JoinPath :: "string \<Rightarrow> string \<Rightarrow> string"
  Redirect :: "response \<Rightarrow> request \<Rightarrow> string \<Rightarrow> nat \<Rightarrow> response"


text \<open>
  \<open>errors.As(err, &rerr)\<close> for a \<open>blob.RedirectError\<close>, and \<open>multierr.Combine\<close>: nil when
  every error is nil, the error itself when one is not, a combined error otherwise.
\<close>

fun errors_As_RedirectError :: "err \<Rightarrow> (string \<times> nat) option" where
  "errors_As_RedirectError (RedirectError loc code) = Some (loc, code)"
| "errors_As_RedirectError (ErrMulti es) =
     (case filter (\<lambda>r. r \<noteq> None) (map errors_As_RedirectError es) of
        [] \<Rightarrow> None
      | r # _ \<Rightarrow> r)"
| "errors_As_RedirectError e = None"

definition Combine :: "err option list \<Rightarrow> err option" where
  "Combine es = (case List.map_filter id es of
                   [] \<Rightarrow> None
                 | [e] \<Rightarrow> Some e
                 | e # e' # rest \<Rightarrow> Some (ErrMulti (e # e' # rest)))"

section \<open>The well-known registry errors\<close>

text \<open>
  The \<open>regErr...\<close> values and constructors are declared in another file of the package, which
  is not under \<^verbatim>\<open>src/\<close>. Each is given the HTTP status and the code of its row in the spec's
  table of well-known errors (section 4.6). The spec does not give the message texts: the model
  leaves them empty, and no theorem depends on them.
\<close>

text \<open>Modelled from the spec: \<open>regErrDenied\<close>, missing from the sources. "Access denied | 403 | DENIED".\<close>

definition regErrDenied :: regError where
  "regErrDenied = \<lparr>Status = 403, Code = ''DENIED'', Message = []\<rparr>"

text \<open>
  Modelled from the spec: \<open>regErrDeniedQuotaExceeded\<close>, missing from the sources. "Quota
  exceeded | 403 | DENIED (message indicates quota)"; section 4.2 says "DENIED with
  QUOTA_EXCEEDED".
\<close>

definition regErrDeniedQuotaExceeded :: regError where
  "regErrDeniedQuotaExceeded = \<lparr>Status = 403, Code = ''DENIED'', Message = ''QUOTA_EXCEEDED''\<rparr>"

text \<open>
  Modelled from the spec: \<open>regErrNameInvalid\<close>, missing from the sources. "Invalid
  artifact/repo name | 400 | NAME_INVALID".
\<close>

definition regErrNameInvalid :: regError where
  "regErrNameInvalid = \<lparr>Status = 400, Code = ''NAME_INVALID'', Message = []\<rparr>"

text \<open>
  Modelled from the spec: \<open>regErrNameUnknown\<close>, missing from the sources. "Unknown repo | 404 |
  NAME_UNKNOWN".
\<close>

definition regErrNameUnknown :: regError where
  "regErrNameUnknown = \<lparr>Status = 404, Code = ''NAME_UNKNOWN'', Message = []\<rparr>"

text \<open>
  Modelled from the spec: \<open>regErrManifestUnknown\<close>, missing from the sources. "Unknown
  manifest | 404 | MANIFEST_UNKNOWN".
\<close>

definition regErrManifestUnknown :: regError where
  "regErrManifestUnknown = \<lparr>Status = 404, Code = ''MANIFEST_UNKNOWN'', Message = []\<rparr>"

text \<open>
  Modelled from the spec: \<open>regErrManifestInvalid(err)\<close>, missing from the sources. "Malformed
  manifest | 400 | MANIFEST_INVALID".
\<close>

definition regErrManifestInvalid :: "err \<Rightarrow> regError" where
  "regErrManifestInvalid e = \<lparr>Status = 400, Code = ''MANIFEST_INVALID'', Message = []\<rparr>"

text \<open>
  Modelled from the spec: \<open>regErrMethodUnknown\<close>, missing from the sources. "Unsupported HTTP
  method | 405 | METHOD_UNKNOWN".
\<close>

definition regErrMethodUnknown :: regError where
  "regErrMethodUnknown = \<lparr>Status = 405, Code = ''METHOD_UNKNOWN'', Message = []\<rparr>"

text \<open>
  Modelled from the spec: \<open>regErrInternal(err)\<close>, missing from the sources. "Other | 500 |
  internal, body carries sanitized message"; section 4.2 writes the code \<open>INTERNAL\<close>.
\<close>

definition regErrInternal :: "err \<Rightarrow> regError" where
  "regErrInternal e = \<lparr>Status = 500, Code = ''INTERNAL'', Message = []\<rparr>"

section \<open>Operations on the request, the response and the world\<close>

text \<open>
  \<open>url.Values.Get\<close> and \<open>http.Header.Get\<close>: the first value of the key, the empty string when
  there is none. Then \<open>resp.Header().Set\<close>, \<open>resp.WriteHeader\<close> (only the first call counts) and
  \<open>io.Copy(resp, ...)\<close>.
\<close>

definition Get :: "(string \<times> string) list \<Rightarrow> string \<Rightarrow> string" where
  "Get vs k = (case map_of vs k of None \<Rightarrow> [] | Some v \<Rightarrow> v)"

definition logCall :: "call \<Rightarrow> ('d, 'b) world \<Rightarrow> ('d, 'b) world" where
  "logCall c w = w\<lparr>calls := calls w @ [c]\<rparr>"

definition setHeader :: "string \<Rightarrow> string \<Rightarrow> ('d, 'b) world \<Rightarrow> ('d, 'b) world" where
  "setHeader k v w = w\<lparr>resp := (resp w)\<lparr>Header := (Header (resp w))(k \<mapsto> v)\<rparr>\<rparr>"

definition WriteHeader :: "nat \<Rightarrow> ('d, 'b) world \<Rightarrow> ('d, 'b) world" where
  "WriteHeader code w =
     (case StatusCode (resp w) of
        None \<Rightarrow> w\<lparr>resp := (resp w)\<lparr>StatusCode := Some code\<rparr>\<rparr>
      | Some _ \<Rightarrow> w)"

definition copyToResp ::
  "('d, 'b) collab \<Rightarrow> bytes \<Rightarrow> ('d, 'b) world \<Rightarrow> err option \<times> ('d, 'b) world" where
  "copyToResp C bs w =
     (case respWrite C bs of
        Some e \<Rightarrow> (Some e, w)
      | None \<Rightarrow> (None, w\<lparr>resp := (resp w)\<lparr>Written := Written (resp w) @ bs\<rparr>\<rparr>))"

text \<open>
  Modelled from the spec: \<open>db.RunTx\<close>, missing from the sources. The spec says it "executes
  \<open>fn\<close> atomically" and that of the two Puts "either both succeed or neither is observable":
  the function runs on the database; when it returns an error the database is as it was before.
\<close>

definition RunTx ::
  "(('d, 'b) world \<Rightarrow> err option \<times> ('d, 'b) world) \<Rightarrow> ('d, 'b) world
     \<Rightarrow> err option \<times> ('d, 'b) world" where
  "RunTx fn w =
     (case fn (logCall TxBegin w) of
        (None, w') \<Rightarrow> (None, logCall TxCommit w')
      | (Some e, w') \<Rightarrow> (Some e, logCall TxRollback (w'\<lparr>db := db w\<rparr>)))"

text \<open>
  Two blocks the source repeats: the mapping of an authorizer error (lines 109-114, 119-124,
  129-134, 157-162, 250-255), and the audit of a pull whose failure is only logged (lines
  352-356, 377-381, 407-411). Then the store calls, each with its trace entry.
\<close>

definition authFailure :: "err \<Rightarrow> regError" where
  "authFailure e =
     (if errors_Is e ErrAccessDenied then regErrDenied
      else if errors_Is e ErrInvalidArtifactName then regErrNameInvalid
      else regErrInternal e)"

definition auditPull ::
  "('d, 'b) collab \<Rightarrow> string \<Rightarrow> string \<Rightarrow> ('d, 'b) world \<Rightarrow> ('d, 'b) world" where
  "auditPull C repo target w =
     (case AuditPull C repo target of
        None \<Rightarrow> logCall (CallAuditPull repo target) w
      | Some e \<Rightarrow>
          logCall (LogWarn ''failed to audit-log pull'') (logCall (CallAuditPull repo target) w))"

definition storeGet ::
  "('d, 'b) collab \<Rightarrow> string \<Rightarrow> string \<Rightarrow> ('d, 'b) world
     \<Rightarrow> (err + Manifest) \<times> ('d, 'b) world" where
  "storeGet C repo reference w =
     (mGet C (db w) repo reference, logCall (CallGet repo reference) w)"

definition storePut ::
  "('d, 'b) collab \<Rightarrow> string \<Rightarrow> string \<Rightarrow> Manifest \<Rightarrow> Blob list \<Rightarrow> ('d, 'b) world
     \<Rightarrow> err option \<times> ('d, 'b) world" where
  "storePut C repo reference mf deps w =
     (case mPut C (db w) repo reference mf deps of
        (e, d') \<Rightarrow> (e, logCall (CallPut repo reference mf deps) (w\<lparr>db := d'\<rparr>)))"

definition blobGet ::
  "('d, 'b) collab \<Rightarrow> string \<Rightarrow> Hash \<Rightarrow> bool \<Rightarrow> ('d, 'b) world
     \<Rightarrow> (err + (err + bytes)) \<times> ('d, 'b) world" where
  "blobGet C repo h allowRedirect w =
     (bGet C (blobs w) repo h allowRedirect, logCall (CallBlobGet repo h allowRedirect) w)"


section \<open>The handlers\<close>

text \<open>
  A handler returns \<open>*regError\<close>: \<open>None\<close> is \<open>nil\<close>. \<open>handleTags\<close> and \<open>handleReferrers\<close> slice
  the path elements first (\<open>elem[1:len(elem)-2]\<close>), which panics for a path of fewer than three
  elements after the leading one: their outcome is \<open>Panic\<close> or \<open>Return\<close>.

  \<open>handleTags\<close>: lines 150-204.
\<close>

datatype outcome = Panic | Return "regError option"

definition handleTags ::
  "('d, 'b) collab \<Rightarrow> lib \<Rightarrow> request \<Rightarrow> ('d, 'b) world \<Rightarrow> outcome \<times> ('d, 'b) world" where
  "handleTags C L req w =
     (let elem = tl (Split (Path req) (CHR ''/'')) in
      if length elem < 3 then (Panic, w)
      else
        let repo = Join (take (length elem - 3) (drop 1 elem)) ''/'' in
        if Method req = ''GET'' then
          (case Authorize C repo ActionRead of
             Some e \<Rightarrow> (Return (Some (authFailure e)), w)
           | None \<Rightarrow>
               let last = Get (Query req) ''last'';
                   ns = Get (Query req) ''n''
               in
               (case (if ns \<noteq> [] then
                        (case Atoi ns of
                           (parsed, Some e) \<Rightarrow>
                             Inl \<lparr>Status = StatusBadRequest, Code = ''BAD_REQUEST'',
                                  Message = ''parsing n: '' @ Error L e\<rparr>
                         | (parsed, None) \<Rightarrow> Inr parsed)
                      else Inr 10000) of
                  Inl re \<Rightarrow> (Return (Some re), w)
                | Inr n \<Rightarrow>
                    let w1 = logCall (CallListTags repo n last) w in
                    (case mListTags C (db w) repo n last of
                       Inl e \<Rightarrow>
                         if errors_Is e ErrNameUnknown then (Return (Some regErrNameUnknown), w1)
                         else (Return (Some (regErrInternal e)), w1)
                     | Inr references \<Rightarrow>
                         (case MarshalListTags L \<lparr>Name = repo, Tags = references\<rparr> of
                            Inl e \<Rightarrow> (Return (Some (regErrInternal e)), w1)
                          | Inr msg \<Rightarrow>
                              let w2 = setHeader ''Content-Length'' (Sprint_nat (length msg)) w1;
                                  w3 = WriteHeader StatusOK w2
                              in
                              (case copyToResp C msg w3 of
                                 (Some e, w4) \<Rightarrow> (Return (Some (regErrInternal e)), w4)
                               | (None, w4) \<Rightarrow> (Return None, w4))))))
        else (Return (Some regErrMethodUnknown), w))"

text \<open>\<open>handleCatalog\<close>: lines 206-235. The value of \<open>strconv.Atoi\<close> is kept, its error dropped.\<close>

definition handleCatalog ::
  "('d, 'b) collab \<Rightarrow> lib \<Rightarrow> request \<Rightarrow> ('d, 'b) world
     \<Rightarrow> regError option \<times> ('d, 'b) world" where
  "handleCatalog C L req w =
     (let nStr = Get (Query req) ''n'';
          n = (if nStr \<noteq> [] then fst (Atoi nStr) else 10000)
      in
      if Method req = ''GET'' then
        (let w1 = logCall (CallList n) w in
         case mList C (db w) n of
           Inl e \<Rightarrow> (Some (regErrInternal e), w1)
         | Inr repos \<Rightarrow>
             (case MarshalCatalog L \<lparr>Repos = repos\<rparr> of
                Inl e \<Rightarrow> (Some (regErrInternal e), w1)
              | Inr msg \<Rightarrow>
                  let w2 = setHeader ''Content-Length'' (Sprint_nat (length msg)) w1;
                      w3 = WriteHeader StatusOK w2
                  in
                  (case copyToResp C msg w3 of
                     (Some e, w4) \<Rightarrow> (Some (regErrInternal e), w4)
                   | (None, w4) \<Rightarrow> (None, w4))))
      else (Some regErrMethodUnknown, w))"

text \<open>
  \<open>json.Unmarshal\<close> binds an object member to a struct field when the member's key is the
  field's JSON name or, failing an exact match with any field of the struct, equals a field's
  name under case folding: \<open>matchesField\<close> for a struct with one field, \<open>findField\<close> for a
  struct with the given field names.
\<close>

definition matchesField :: "lib \<Rightarrow> string \<Rightarrow> string \<Rightarrow> bool" where
  "matchesField L name key = (key = name \<or> EqualFold L key name)"

definition findField :: "lib \<Rightarrow> string list \<Rightarrow> string \<Rightarrow> string option" where
  "findField L names key =
     (if key \<in> set names then Some key else List.find (\<lambda>name. EqualFold L key name) names)"

text \<open>
  The two decodings of a manifest body in \<open>handleReferrers\<close> (lines 299-316); both errors are
  dropped, so only what is left in the struct matters.

  \<open>UnmarshalSubject\<close> is \<open>json.Unmarshal\<close> into \<open>struct { Subject *v1.Descriptor }\<close>: the
  result is \<open>None\<close> for a nil \<open>Subject\<close> and the \<open>Digest\<close> of the descriptor otherwise. A body
  that is not JSON, or not an object, leaves \<open>Subject\<close> nil. In an object, every member bound
  to the field is decoded in order: \<open>null\<close> sets the pointer to nil; any other value allocates
  a zero descriptor if the pointer is nil (\<open>allocated\<close>) and, when it is an object, decodes its
  members into that descriptor (anything else is a type error that is remembered while
  decoding goes on). Of the descriptor's fields (\<open>descriptorFields\<close>, the JSON names of
  \<open>v1.Descriptor\<close>) only \<open>Digest\<close> has an \<open>UnmarshalJSON\<close> method: \<open>strconv.Unquote\<close> of the
  member's text, then the parser behind \<open>v1.NewHash\<close>, which assigns the hash only when it
  succeeds (\<open>decodeHash\<close>; a text that is not a string literal, \<open>null\<close> included, fails to
  unquote). An error of that method ends the whole decoding at once, with the struct as it
  is at that moment (\<open>decodeDescriptorDigest\<close> returns the error, \<open>decodeSubjectField\<close> stops).

  \<open>UnmarshalConfigMediaType\<close> is \<open>json.Unmarshal\<close> into
  \<open>struct { Config struct { MediaType string } }\<close>, giving \<open>Config.MediaType\<close>: a string member
  sets it; \<open>null\<close> and members of any other type leave it as it is (the latter with a type
  error that does not stop the decoding).
\<close>

definition zeroHash :: Hash where
  "zeroHash = \<lparr>Algorithm = [], Hex = []\<rparr>"

definition allocated :: "Hash option \<Rightarrow> Hash" where
  "allocated s = (case s of None \<Rightarrow> zeroHash | Some h \<Rightarrow> h)"

definition descriptorFields :: "string list" where
  "descriptorFields =
     [''mediaType'', ''size'', ''digest'', ''data'', ''urls'', ''annotations'', ''platform'',
      ''artifactType'']"

definition decodeHash :: "lib \<Rightarrow> jvalue \<Rightarrow> err + Hash" where
  "decodeHash L v =
     (case v of
        JString s \<Rightarrow> NewHash L s
      | _ \<Rightarrow> Inl (ErrOther ''invalid syntax''))"

fun decodeDescriptorDigest ::
  "lib \<Rightarrow> (string \<times> jvalue) list \<Rightarrow> Hash \<Rightarrow> err option \<times> Hash" where
  "decodeDescriptorDigest L [] h = (None, h)"
| "decodeDescriptorDigest L ((k, v) # kvs) h =
     (if findField L descriptorFields k = Some ''digest'' then
        (case decodeHash L v of
           Inl e \<Rightarrow> (Some e, h)
         | Inr h' \<Rightarrow> decodeDescriptorDigest L kvs h')
      else decodeDescriptorDigest L kvs h)"

fun decodeSubjectField ::
  "lib \<Rightarrow> (string \<times> jvalue) list \<Rightarrow> Hash option \<Rightarrow> Hash option" where
  "decodeSubjectField L [] s = s"
| "decodeSubjectField L ((k, v) # kvs) s =
     (if matchesField L ''subject'' k then
        (case v of
           JNull \<Rightarrow> decodeSubjectField L kvs None
         | JObject ds \<Rightarrow>
             (case decodeDescriptorDigest L ds (allocated s) of
                (Some e, h) \<Rightarrow> Some h
              | (None, h) \<Rightarrow> decodeSubjectField L kvs (Some h))
         | _ \<Rightarrow> decodeSubjectField L kvs (Some (allocated s)))
      else decodeSubjectField L kvs s)"

definition UnmarshalSubject :: "lib \<Rightarrow> bytes \<Rightarrow> Hash option" where
  "UnmarshalSubject L data =
     (case ParseJSON L data of
        Inl e \<Rightarrow> None
      | Inr (JObject kvs) \<Rightarrow> decodeSubjectField L kvs None
      | Inr _ \<Rightarrow> None)"

fun decodeMediaTypeField :: "lib \<Rightarrow> (string \<times> jvalue) list \<Rightarrow> string \<Rightarrow> string" where
  "decodeMediaTypeField L [] s = s"
| "decodeMediaTypeField L ((k, v) # kvs) s =
     (if matchesField L ''mediaType'' k then
        (case v of
           JString x \<Rightarrow> decodeMediaTypeField L kvs x
         | _ \<Rightarrow> decodeMediaTypeField L kvs s)
      else decodeMediaTypeField L kvs s)"

fun decodeConfigField :: "lib \<Rightarrow> (string \<times> jvalue) list \<Rightarrow> string \<Rightarrow> string" where
  "decodeConfigField L [] s = s"
| "decodeConfigField L ((k, v) # kvs) s =
     (if matchesField L ''config'' k then
        (case v of
           JObject cs \<Rightarrow> decodeConfigField L kvs (decodeMediaTypeField L cs s)
         | _ \<Rightarrow> decodeConfigField L kvs s)
      else decodeConfigField L kvs s)"

definition UnmarshalConfigMediaType :: "lib \<Rightarrow> bytes \<Rightarrow> string" where
  "UnmarshalConfigMediaType L data =
     (case ParseJSON L data of
        Inl e \<Rightarrow> []
      | Inr (JObject kvs) \<Rightarrow> decodeConfigField L kvs []
      | Inr _ \<Rightarrow> [])"

text \<open>
  \<open>handleReferrers\<close>: lines 238-335, with the loop over the listed digests (lines 279-323) as
  \<open>referrersLoop\<close>. (\<open>defer b.Close()\<close> has no effect on the response.)
\<close>

fun referrersLoop ::
  "('d, 'b) collab \<Rightarrow> lib \<Rightarrow> string \<Rightarrow> string \<Rightarrow> Hash list \<Rightarrow> Descriptor list
     \<Rightarrow> ('d, 'b) world \<Rightarrow> (regError + Descriptor list) \<times> ('d, 'b) world" where
  "referrersLoop C L repo target [] ims w = (Inr ims, w)"
| "referrersLoop C L repo target (reference # rest) ims w =
     (case storeGet C repo (String reference) w of
        (Inl e, w1) \<Rightarrow> (Inl (regErrInternal e), w1)
      | (Inr manifest, w1) \<Rightarrow>
          (case blobGet C repo (Digest (Blob manifest)) False w1 of
             (Inl e, w2) \<Rightarrow>
               (Inl \<lparr>Status = StatusNotFound, Code = ''BAD_REQUEST'', Message = Error L e\<rparr>, w2)
           | (Inr (Inl e), w2) \<Rightarrow> (Inl (regErrInternal e), w2)
           | (Inr (Inr buf), w2) \<Rightarrow>
               (case UnmarshalSubject L buf of
                  None \<Rightarrow> referrersLoop C L repo target rest ims w2
                | Some referenceDigest \<Rightarrow>
                    if String referenceDigest \<noteq> target
                    then referrersLoop C L repo target rest ims w2
                    else referrersLoop C L repo target rest
                           (ims @ [\<lparr>dMediaType = ContentType manifest,
                                    dSize = int (length buf),
                                    dDigest = reference,
                                    dArtifactType = UnmarshalConfigMediaType L buf\<rparr>]) w2)))"

definition handleReferrers ::
  "('d, 'b) collab \<Rightarrow> lib \<Rightarrow> request \<Rightarrow> ('d, 'b) world \<Rightarrow> outcome \<times> ('d, 'b) world" where
  "handleReferrers C L req w =
     (if Method req \<noteq> ''GET'' then (Return (Some regErrMethodUnknown), w)
      else
        let elem = tl (Split (Path req) (CHR ''/'')) in
        if length elem < 3 then (Panic, w)
        else
          let target = last elem;
              repo = Join (take (length elem - 3) (drop 1 elem)) ''/''
          in
          (case AuthorizeReference C repo target ActionRead of
             Some e \<Rightarrow> (Return (Some (authFailure e)), w)
           | None \<Rightarrow>
               (case NewHash L target of
                  Inl e \<Rightarrow>
                    (Return (Some \<lparr>Status = StatusBadRequest, Code = ''UNSUPPORTED'',
                                   Message = ''Target must be a valid digest''\<rparr>), w)
                | Inr _ \<Rightarrow>
                    let w1 = logCall (CallListDigests repo) w in
                    (case mListDigests C (db w) repo of
                       Inl e \<Rightarrow>
                         if errors_Is e ErrNameUnknown then (Return (Some regErrNameUnknown), w1)
                         else (Return (Some (regErrInternal e)), w1)
                     | Inr digests \<Rightarrow>
                         (case referrersLoop C L repo target digests [] w1 of
                            (Inl re, w2) \<Rightarrow> (Return (Some re), w2)
                          | (Inr ims, w2) \<Rightarrow>
                              (case MarshalIndex L \<lparr>SchemaVersion = 2,
                                                    iMediaType = OCIImageIndex,
                                                    Manifests = ims\<rparr> of
                                 Inl e \<Rightarrow> (Return (Some (regErrInternal e)), w2)
                               | Inr msg \<Rightarrow>
                                   let w3 = setHeader ''Content-Length'' (Sprint_nat (length msg)) w2;
                                       w4 = setHeader ''Content-Type'' OCIImageIndex w3;
                                       w5 = WriteHeader StatusOK w4
                                   in
                                   (case copyToResp C msg w5 of
                                      (Some e, w6) \<Rightarrow> (Return (Some (regErrInternal e)), w6)
                                    | (None, w6) \<Rightarrow> (Return None, w6))))))))"


text \<open>\<open>handleGet\<close>: lines 337-383.\<close>

definition handleGet ::
  "('d, 'b) collab \<Rightarrow> lib \<Rightarrow> request \<Rightarrow> string \<Rightarrow> string \<Rightarrow> ('d, 'b) world
     \<Rightarrow> regError option \<times> ('d, 'b) world" where
  "handleGet C L req repo target w =
     (case storeGet C repo target w of
        (Inl e, w1) \<Rightarrow>
          if errors_Is e ErrNameUnknown then (Some regErrNameUnknown, w1)
          else if errors_Is e ErrManifestUnknown then (Some regErrManifestUnknown, w1)
          else (Some (regErrInternal e), w1)
      | (Inr m, w1) \<Rightarrow>
          (case blobGet C repo (Digest (Blob m)) True w1 of
             (Inl e, w2) \<Rightarrow>
               (case errors_As_RedirectError e of
                  Some (loc, code) \<Rightarrow>
                    let w3 = auditPull C repo target w2 in
                    (None, w3\<lparr>resp := Redirect L (resp w3) req loc code\<rparr>)
                | None \<Rightarrow> (Some regErrManifestUnknown, w2))
           | (Inr (Inl e), w2) \<Rightarrow> (Some (regErrInternal e), w2)
           | (Inr (Inr buf), w2) \<Rightarrow>
               let w3 = setHeader ''Docker-Content-Digest'' (String (Digest (Blob m))) w2;
                   w4 = setHeader ''Content-Type'' (ContentType m) w3;
                   w5 = setHeader ''Content-Length'' (Sprint_nat (length buf)) w4;
                   w6 = WriteHeader StatusOK w5
               in
               (case copyToResp C buf w6 of
                  (Some e, w7) \<Rightarrow> (Some (regErrInternal e), w7)
                | (None, w7) \<Rightarrow> (None, auditPull C repo target w7))))"

text \<open>\<open>handleHead\<close>: lines 385-418.\<close>

definition handleHead ::
  "('d, 'b) collab \<Rightarrow> lib \<Rightarrow> request \<Rightarrow> string \<Rightarrow> string \<Rightarrow> ('d, 'b) world
     \<Rightarrow> regError option \<times> ('d, 'b) world" where
  "handleHead C L req repo target w =
     (case storeGet C repo target w of
        (Inl e, w1) \<Rightarrow>
          if errors_Is e ErrNameUnknown then (Some regErrNameUnknown, w1)
          else if errors_Is e ErrManifestUnknown then (Some regErrManifestUnknown, w1)
          else (Some (regErrInternal e), w1)
      | (Inr m, w1) \<Rightarrow>
          (case bStat C of
             None \<Rightarrow> (Some (regErrInternal (ErrOther ''cannot stat blob'')), w1)
           | Some stat \<Rightarrow>
               let w2 = logCall (CallBlobStat repo (Digest (Blob m))) w1 in
               (case stat (blobs w1) repo (Digest (Blob m)) of
                  Inl e \<Rightarrow> (Some regErrManifestUnknown, w2)
                | Inr l \<Rightarrow>
                    let w3 = auditPull C repo target w2;
                        w4 = setHeader ''Docker-Content-Digest'' (String (Digest (Blob m))) w3;
                        w5 = setHeader ''Content-Type'' (ContentType m) w4;
                        w6 = setHeader ''Content-Length'' (Sprint_int l) w5
                    in (None, WriteHeader StatusOK w6))))"

text \<open>
  \<open>handlePut\<close>: lines 420-526. The loop over the sub-descriptors of an index (lines 450-467)
  is \<open>indexDeps\<close>; the blobs of an image manifest (lines 478-488) are \<open>imageDeps\<close>;
  \<open>collectDeps\<close> is the branch on the Content-Type (lines 444-493); \<open>putBoth\<close> is the function
  handed to \<open>db.RunTx\<close> (lines 510-513: both Puts run, then \<open>multierr.Combine\<close>).
\<close>

fun indexDeps ::
  "('d, 'b) collab \<Rightarrow> lib \<Rightarrow> string \<Rightarrow> Descriptor list \<Rightarrow> Blob list \<Rightarrow> ('d, 'b) world
     \<Rightarrow> (regError + Blob list) \<times> ('d, 'b) world" where
  "indexDeps C L repo [] bs w = (Inr bs, w)"
| "indexDeps C L repo (desc # rest) bs w =
     (if \<not> IsDistributable L (dMediaType desc) then indexDeps C L repo rest bs w
      else if IsIndex L (dMediaType desc) \<or> IsImage L (dMediaType desc) then
        (case storeGet C repo (String (dDigest desc)) w of
           (Inl e, w1) \<Rightarrow>
             (Inl \<lparr>Status = StatusNotFound, Code = ''MANIFEST_UNKNOWN'',
                   Message = ''Sub-manifest '' @ Quote L (String (dDigest desc)) @ '' not found''\<rparr>,
              w1)
         | (Inr _, w1) \<Rightarrow>
             indexDeps C L repo rest (bs @ [\<lparr>Digest = dDigest desc, Size = dSize desc\<rparr>]) w1)
      else
        indexDeps C L repo rest bs
          (logCall (LogWarn (''TODO: Check blobs for '' @ Quote L (String (dDigest desc))
                              @ '' (MediaType: '' @ dMediaType desc @ '')'')) w))"

definition imageDeps :: "lib \<Rightarrow> v1Manifest \<Rightarrow> Blob list" where
  "imageDeps L m =
     [\<lparr>Digest = dDigest (Config m), Size = dSize (Config m)\<rparr>]
     @ (case Subject m of
          None \<Rightarrow> []
        | Some s \<Rightarrow> [\<lparr>Digest = dDigest s, Size = dSize s\<rparr>])
     @ map (\<lambda>desc. \<lparr>Digest = dDigest desc, Size = dSize desc\<rparr>)
         (filter (\<lambda>desc. IsDistributable L (dMediaType desc)) (Layers m))"

text \<open>
  \<open>checkIncompatibleManifest\<close>: lines 541-551. \<open>json.Unmarshal\<close> into
  \<open>struct { Blobs []any `json:"blobs"` }\<close> is \<open>UnmarshalBlobs\<close>: a syntax error fails; \<open>null\<close>
  leaves the struct as it is; any other non-object is a type error; in an object every member
  whose key matches the field (exactly, or under case folding) is decoded in order: an array
  replaces the slice, \<open>null\<close> sets it to nil, anything else is a type error that is remembered
  while decoding goes on. A nil slice and an empty one both have length 0.
\<close>

fun decodeBlobsField ::
  "lib \<Rightarrow> (string \<times> jvalue) list \<Rightarrow> err option \<times> jvalue list \<Rightarrow> err option \<times> jvalue list" where
  "decodeBlobsField L [] acc = acc"
| "decodeBlobsField L ((k, v) # kvs) (e, bs) =
     (if matchesField L ''blobs'' k then
        (case v of
           JArray xs \<Rightarrow> decodeBlobsField L kvs (e, xs)
         | JNull \<Rightarrow> decodeBlobsField L kvs (e, [])
         | _ \<Rightarrow>
             decodeBlobsField L kvs
               (case e of
                  None \<Rightarrow> Some (ErrOther ''json: cannot unmarshal into Go struct field .blobs'')
                | Some x \<Rightarrow> Some x,
                bs))
      else decodeBlobsField L kvs (e, bs))"

definition UnmarshalBlobs :: "lib \<Rightarrow> bytes \<Rightarrow> err option \<times> jvalue list" where
  "UnmarshalBlobs L data =
     (case ParseJSON L data of
        Inl e \<Rightarrow> (Some e, [])
      | Inr (JObject kvs) \<Rightarrow> decodeBlobsField L kvs (None, [])
      | Inr JNull \<Rightarrow> (None, [])
      | Inr _ \<Rightarrow> (Some (ErrOther ''json: cannot unmarshal into Go value of type struct''), []))"

definition checkIncompatibleManifest :: "lib \<Rightarrow> bytes \<Rightarrow> regError option" where
  "checkIncompatibleManifest L data =
     (case UnmarshalBlobs L data of
        (Some e, _) \<Rightarrow> Some (regErrManifestInvalid e)
      | (None, bs) \<Rightarrow>
          if length bs > 0
          then Some (regErrManifestInvalid
                       (ErrOther ''non-compliant manifest with blobs entry detected''))
          else None)"

definition collectDeps ::
  "('d, 'b) collab \<Rightarrow> lib \<Rightarrow> string \<Rightarrow> string \<Rightarrow> bytes \<Rightarrow> ('d, 'b) world
     \<Rightarrow> (regError + Blob list) \<times> ('d, 'b) world" where
  "collectDeps C L repo contentType buf w =
     (if IsIndex L contentType then
        (case ParseIndexManifest L buf of
           Inl e \<Rightarrow> (Inl (regErrManifestInvalid e), w)
         | Inr im \<Rightarrow> indexDeps C L repo (Manifests im) [] w)
      else if IsImage L contentType then
        (case ParseManifest L buf of
           Inl e \<Rightarrow> (Inl (regErrManifestInvalid e), w)
         | Inr m \<Rightarrow> (Inr (imageDeps L m), w))
      else (Inr [], w))"

definition putBoth ::
  "('d, 'b) collab \<Rightarrow> string \<Rightarrow> string \<Rightarrow> Manifest \<Rightarrow> Blob list \<Rightarrow> ('d, 'b) world
     \<Rightarrow> err option \<times> ('d, 'b) world" where
  "putBoth C repo target mf deps w =
     (case storePut C repo (String (Digest (Blob mf))) mf deps w of
        (e1, w1) \<Rightarrow>
          (case storePut C repo target mf deps w1 of
             (e2, w2) \<Rightarrow> (Combine [e1, e2], w2)))"

definition handlePut ::
  "('d, 'b) collab \<Rightarrow> lib \<Rightarrow> request \<Rightarrow> string \<Rightarrow> string \<Rightarrow> ('d, 'b) world
     \<Rightarrow> regError option \<times> ('d, 'b) world" where
  "handlePut C L req repo target w =
     (case Body req of
        Inl e \<Rightarrow> (Some (regErrInternal e), w)
      | Inr buf \<Rightarrow>
          (case SHA256 L buf of
             Inl e \<Rightarrow> (Some (regErrInternal e), w)
           | Inr manifestDigest \<Rightarrow>
               let mf = \<lparr>ContentType = Get (ReqHeader req) ''Content-Type'',
                         Blob = \<lparr>Digest = manifestDigest, Size = int (length buf)\<rparr>\<rparr>
               in
               (case collectDeps C L repo (ContentType mf) buf w of
                  (Inl re, w1) \<Rightarrow> (Some re, w1)
                | (Inr deps, w1) \<Rightarrow>
                    (case checkIncompatibleManifest L buf of
                       Some re \<Rightarrow> (Some re, w1)
                     | None \<Rightarrow>
                         (case bPut C of
                            None \<Rightarrow>
                              (Some (regErrInternal
                                       (ErrOther ''blob handler is not a BlobPutHandler'')), w1)
                          | Some put \<Rightarrow>
                              (case put (blobs w1) repo (Digest (Blob mf)) (ContentType mf) buf of
                                 (Some e, b') \<Rightarrow>
                                   (Some (regErrInternal e),
                                    logCall (CallBlobPut repo (Digest (Blob mf)) (ContentType mf) buf)
                                      (w1\<lparr>blobs := b'\<rparr>))
                               | (None, b') \<Rightarrow>
                                   (case RunTx (putBoth C repo target mf deps)
                                           (logCall (CallBlobPut repo (Digest (Blob mf))
                                                       (ContentType mf) buf)
                                              (w1\<lparr>blobs := b'\<rparr>)) of
                                      (Some e, w3) \<Rightarrow>
                                        if errors_Is e ErrQuotaExceeded
                                        then (Some regErrDeniedQuotaExceeded, w3)
                                        else (Some (regErrInternal e), w3)
                                    | (None, w3) \<Rightarrow>
                                        let w4 = setHeader ''Docker-Content-Digest''
                                                   (String (Digest (Blob mf))) w3;
                                            w5 = setHeader ''OCI-Subject''
                                                   (String (Digest (Blob mf))) w4;
                                            w6 = setHeader ''Location''
                                                   (JoinPath L (Path req)
                                                      (String (Digest (Blob mf)))) w5
                                        in (None, WriteHeader StatusCreated w6))))))))"


section \<open>Notions the theorems are stated with\<close>

text \<open>
  \<open>putManifest\<close>: the record \<open>mf\<close> that \<open>handlePut\<close> builds (lines 426-436). \<open>isPutCall\<close>: the
  trace entries that record something. \<open>missingChild\<close>: a sub-descriptor that is distributable,
  has an image or index media type, and whose manifest Get fails. \<open>subManifestNotFound\<close>: the
  error of lines 456-460.
\<close>

definition putManifest :: "request \<Rightarrow> bytes \<Rightarrow> Hash \<Rightarrow> Manifest" where
  "putManifest req buf manifestDigest =
     \<lparr>ContentType = Get (ReqHeader req) ''Content-Type'',
      Blob = \<lparr>Digest = manifestDigest, Size = int (length buf)\<rparr>\<rparr>"

definition isPutCall :: "call \<Rightarrow> bool" where
  "isPutCall c = (case c of CallPut _ _ _ _ \<Rightarrow> True | CallBlobPut _ _ _ _ \<Rightarrow> True | _ \<Rightarrow> False)"

definition missingChild ::
  "('d, 'b) collab \<Rightarrow> lib \<Rightarrow> 'd \<Rightarrow> string \<Rightarrow> Descriptor \<Rightarrow> bool" where
  "missingChild C L d repo desc =
     (IsDistributable L (dMediaType desc)
      \<and> (IsIndex L (dMediaType desc) \<or> IsImage L (dMediaType desc))
      \<and> isl (mGet C d repo (String (dDigest desc))))"

definition subManifestNotFound :: "lib \<Rightarrow> Descriptor \<Rightarrow> regError" where
  "subManifestNotFound L desc =
     \<lparr>Status = 404, Code = ''MANIFEST_UNKNOWN'',
      Message = ''Sub-manifest '' @ Quote L (String (dDigest desc)) @ '' not found''\<rparr>"

text \<open>
  The referrers of a digest, following the spec's words (section 4.5): for a listed digest,
  its manifest record and its body (\<open>storedBody\<close>); its descriptor when the body decodes to a
  \<open>subject\<close> whose digest is the target (\<open>referrerOf\<close>); and the descriptors of all listed
  digests, in order (\<open>referrersSpec\<close>). It is compared with \<open>referrersLoop\<close> below.
\<close>

definition storedBody ::
  "('d, 'b) collab \<Rightarrow> ('d, 'b) world \<Rightarrow> string \<Rightarrow> Hash \<Rightarrow> (Manifest \<times> bytes) option" where
  "storedBody C w repo d =
     (case mGet C (db w) repo (String d) of
        Inl _ \<Rightarrow> None
      | Inr m \<Rightarrow>
          (case bGet C (blobs w) repo (Digest (Blob m)) False of
             Inr (Inr buf) \<Rightarrow> Some (m, buf)
           | _ \<Rightarrow> None))"

definition referrerOf ::
  "('d, 'b) collab \<Rightarrow> lib \<Rightarrow> ('d, 'b) world \<Rightarrow> string \<Rightarrow> string \<Rightarrow> Hash
     \<Rightarrow> Descriptor option" where
  "referrerOf C L w repo target d =
     (case storedBody C w repo d of
        None \<Rightarrow> None
      | Some (m, buf) \<Rightarrow>
          (case UnmarshalSubject L buf of
             None \<Rightarrow> None
           | Some subject \<Rightarrow>
               if String subject = target
               then Some \<lparr>dMediaType = ContentType m, dSize = int (length buf),
                          dDigest = d, dArtifactType = UnmarshalConfigMediaType L buf\<rparr>
               else None))"

definition referrersSpec ::
  "('d, 'b) collab \<Rightarrow> lib \<Rightarrow> ('d, 'b) world \<Rightarrow> string \<Rightarrow> string \<Rightarrow> Hash list
     \<Rightarrow> Descriptor list" where
  "referrersSpec C L w repo target ds = List.map_filter (referrerOf C L w repo target) ds"

text \<open>
  The \<open>config.mediaType\<close> of a body, following the spec's words (section 4.5, step 3): the
  strings found under \<open>mediaType\<close> in the objects found under \<open>config\<close> at the top level
  (\<open>configMediaTypes\<close>, in the order of the text). It is compared with
  \<open>UnmarshalConfigMediaType\<close> below.
\<close>

definition memberStrings :: "lib \<Rightarrow> string \<Rightarrow> (string \<times> jvalue) list \<Rightarrow> string list" where
  "memberStrings L name kvs =
     concat (map (\<lambda>kv. case snd kv of
                          JString x \<Rightarrow> if matchesField L name (fst kv) then [x] else []
                        | _ \<Rightarrow> []) kvs)"

definition memberObjects ::
  "lib \<Rightarrow> string \<Rightarrow> (string \<times> jvalue) list \<Rightarrow> (string \<times> jvalue) list list" where
  "memberObjects L name kvs =
     concat (map (\<lambda>kv. case snd kv of
                          JObject ms \<Rightarrow> if matchesField L name (fst kv) then [ms] else []
                        | _ \<Rightarrow> []) kvs)"

definition configMediaTypes :: "lib \<Rightarrow> (string \<times> jvalue) list \<Rightarrow> string list" where
  "configMediaTypes L kvs =
     concat (map (memberStrings L ''mediaType'') (memberObjects L ''config'' kvs))"

section \<open>Examples: in-memory stores and library values\<close>

text \<open>
  For concrete runs: an in-memory manifest store and blob store (association lists, newest
  entry first), an authorizer that allows everything, an auditor and a client connection that
  never fail.
\<close>

type_synonym memDb = "((string \<times> string) \<times> Manifest) list"
type_synonym memBlobs = "((string \<times> Hash) \<times> (string \<times> bytes)) list"

definition memStat :: "memBlobs \<Rightarrow> string \<Rightarrow> Hash \<Rightarrow> err + int" where
  "memStat b repo h =
     (case map_of b (repo, h) of
        None \<Rightarrow> Inl (ErrOther ''blob not found'')
      | Some (ct, bs) \<Rightarrow> Inr (int (length bs)))"

definition memPut ::
  "memBlobs \<Rightarrow> string \<Rightarrow> Hash \<Rightarrow> string \<Rightarrow> bytes \<Rightarrow> err option \<times> memBlobs" where
  "memPut b repo h ct bs = (None, ((repo, h), (ct, bs)) # b)"

definition memStores :: "(memDb, memBlobs) collab" where
  "memStores =
     \<lparr>mGet = (\<lambda>d repo reference.
               case map_of d (repo, reference) of
                 None \<Rightarrow> Inl ErrManifestUnknown
               | Some m \<Rightarrow> Inr m),
      mPut = (\<lambda>d repo reference mf deps. (None, ((repo, reference), mf) # d)),
      mListTags = (\<lambda>d repo n last.
               Inr (take (nat n)
                      (remdups (map (snd \<circ> fst)
                         (filter (\<lambda>(k, m). fst k = repo \<and> CHR '':'' \<notin> set (snd k)) d))))),
      mList = (\<lambda>d n. Inr (take (nat n) (remdups (map (fst \<circ> fst) d)))),
      mListDigests = (\<lambda>d repo.
               Inr (remdups (map (\<lambda>(k, m). Digest (Blob m)) (filter (\<lambda>(k, m). fst k = repo) d)))),
      bGet = (\<lambda>b repo h allowRedirect.
               case map_of b (repo, h) of
                 None \<Rightarrow> Inl (ErrOther ''blob not found'')
               | Some (ct, bs) \<Rightarrow> Inr (Inr bs)),
      bStat = Some memStat,
      bPut = Some memPut,
      Authorize = (\<lambda>repo a. None),
      AuthorizeReference = (\<lambda>repo reference a. None),
      AuditPull = (\<lambda>repo target. None),
      respWrite = (\<lambda>bs. None)\<rparr>"

definition newResponse :: response where
  "newResponse = \<lparr>Header = Map.empty, StatusCode = None, Written = []\<rparr>"

definition emptyWorld :: "(memDb, memBlobs) world" where
  "emptyWorld = \<lparr>db = [], blobs = [], calls = [], resp = newResponse\<rparr>"

text \<open>
  Example bodies, with their SHA-256 digests (computed outside), and the media type constants
  of \<open>go-containerregistry\<close>.
\<close>

definition bodyPlain :: bytes where
  \<open>bodyPlain = ''{"schemaVersion":2}''\<close>

definition bodyEmptyBlobs :: bytes where
  \<open>bodyEmptyBlobs = ''{"blobs":[]}''\<close>

definition bodyWithBlobs :: bytes where
  \<open>bodyWithBlobs = ''{"blobs":[1]}''\<close>

definition bodyNotJSON :: bytes where
  \<open>bodyNotJSON = ''not json''\<close>

definition bodyIndex :: bytes where
  \<open>bodyIndex = ''{"schemaVersion":2,"manifests":[{"mediaType":"application/vnd.oci.image.manifest.v1+json","size":2,"digest":"sha256:aaaaaaaaaaaaaaaaaaaaaaaaaaaaaaaaaaaaaaaaaaaaaaaaaaaaaaaaaaaaaaaa"}]}''\<close>

definition bodyReferrer :: bytes where
  \<open>bodyReferrer = ''{"schemaVersion":2,"config":{"mediaType":"application/vnd.example.sbom"},"subject":{"digest":"sha256:bbbbbbbbbbbbbbbbbbbbbbbbbbbbbbbbbbbbbbbbbbbbbbbbbbbbbbbbbbbbbbbb"}}''\<close>

definition sha :: "string \<Rightarrow> Hash" where
  "sha h = \<lparr>Algorithm = ''sha256'', Hex = h\<rparr>"

definition childDigest :: Hash where
  "childDigest = sha ''aaaaaaaaaaaaaaaaaaaaaaaaaaaaaaaaaaaaaaaaaaaaaaaaaaaaaaaaaaaaaaaa''"

definition subjectDigest :: Hash where
  "subjectDigest = sha ''bbbbbbbbbbbbbbbbbbbbbbbbbbbbbbbbbbbbbbbbbbbbbbbbbbbbbbbbbbbbbbbb''"

definition digestPlain :: Hash where
  "digestPlain = sha ''bafebd36189ad3688b7b3915ea55d461e0bfcfbdde11e54b0a123999fb6be50f''"

definition digestEmptyBlobs :: Hash where
  "digestEmptyBlobs = sha ''6c9f86aef515836d947ecdc0d397ea58795b6b4bdb7c352876f3f2753bd1980c''"

definition digestWithBlobs :: Hash where
  "digestWithBlobs = sha ''f0107af0e56d4f04dc65aad7b1feccdf3399656fddc376aa030218ef4126f6ce''"

definition digestNotJSON :: Hash where
  "digestNotJSON = sha ''7ccfa1fbf3940e6f0c0375d87c0f9235a50514e14cb427bdfaf5077987b26ccf''"

definition digestIndex :: Hash where
  "digestIndex = sha ''48eb8136674f70f384ccd3c89bb88ba7452c12c7657d419b01e15f5f737236b1''"

definition digestReferrer :: Hash where
  "digestReferrer = sha ''eb4460b8129c3be55417c53eab580e4c446804f469a267872d4814fe2ed0e6e5''"

definition OCIManifestSchema1 :: string where
  "OCIManifestSchema1 = ''application/vnd.oci.image.manifest.v1+json''"

definition DockerManifestSchema2 :: string where
  "DockerManifestSchema2 = ''application/vnd.docker.distribution.manifest.v2+json''"

definition DockerManifestList :: string where
  "DockerManifestList = ''application/vnd.docker.distribution.manifest.list.v2+json''"

definition DockerForeignLayer :: string where
  "DockerForeignLayer = ''application/vnd.docker.image.rootfs.foreign.diff.tar.gzip''"

definition OCIRestrictedLayer :: string where
  "OCIRestrictedLayer = ''application/vnd.oci.image.layer.nondistributable.v1.tar.gzip''"

definition OCIUncompressedRestrictedLayer :: string where
  "OCIUncompressedRestrictedLayer = ''application/vnd.oci.image.layer.nondistributable.v1.tar''"

text \<open>
  \<open>exampleLib\<close> gives the library functions on the example inputs: SHA-256, digest parsing
  and the JSON parser as tables of their values on the example bodies (any other input is
  answered with an error), the media type predicates by their switch statements, \<open>%q\<close> for
  strings that need no escaping, \<open>json.Marshal\<close> for strings that need no escaping, and
  \<open>http.Redirect\<close> for an absolute URL and a response without Content-Type.
\<close>

definition tabulated :: "('a \<times> 'b) list \<Rightarrow> 'a \<Rightarrow> err + 'b" where
  "tabulated t x = (case map_of t x of None \<Rightarrow> Inl (ErrOther ''not tabulated'') | Some y \<Rightarrow> Inr y)"

definition quoted :: "string \<Rightarrow> string" where
  "quoted s = [CHR 0x22] @ s @ [CHR 0x22]"

definition errorText :: "err \<Rightarrow> string" where
  "errorText e =
     (case e of
        NumError f num k \<Rightarrow>
          ''strconv.'' @ f @ '': parsing '' @ quoted num @ '': ''
            @ (case k of ErrSyntax \<Rightarrow> ''invalid syntax'' | ErrRange \<Rightarrow> ''value out of range'')
      | ErrOther m \<Rightarrow> m
      | _ \<Rightarrow> ''error'')"

definition marshalStrings :: "string list \<Rightarrow> string" where
  "marshalStrings xs = ''['' @ Join (map quoted xs) '','' @ '']''"

definition marshalDescriptor :: "Descriptor \<Rightarrow> string" where
  "marshalDescriptor d =
     ''{'' @ quoted ''mediaType'' @ '':'' @ quoted (dMediaType d)
       @ '','' @ quoted ''size'' @ '':'' @ Sprint_int (dSize d)
       @ '','' @ quoted ''digest'' @ '':'' @ quoted (String (dDigest d))
       @ (if dArtifactType d = [] then []
          else '','' @ quoted ''artifactType'' @ '':'' @ quoted (dArtifactType d))
       @ ''}''"

definition marshalIndex :: "IndexManifest \<Rightarrow> string" where
  "marshalIndex im =
     ''{'' @ quoted ''schemaVersion'' @ '':'' @ Sprint_int (SchemaVersion im)
       @ (if iMediaType im = [] then []
          else '','' @ quoted ''mediaType'' @ '':'' @ quoted (iMediaType im))
       @ '','' @ quoted ''manifests'' @ '':['' @ Join (map marshalDescriptor (Manifests im)) '',''
       @ '']}''"

definition StatusText :: "nat \<Rightarrow> string" where
  "StatusText code =
     (if code = 301 then ''Moved Permanently''
      else if code = 302 then ''Found''
      else if code = 303 then ''See Other''
      else if code = 307 then ''Temporary Redirect''
      else if code = 308 then ''Permanent Redirect''
      else [])"

definition exampleRedirect :: "response \<Rightarrow> request \<Rightarrow> string \<Rightarrow> nat \<Rightarrow> response" where
  "exampleRedirect r req url code =
     (let hadCT = (Header r ''Content-Type'' \<noteq> None);
          h1 = (Header r)(''Location'' \<mapsto> url);
          h2 = (if \<not> hadCT \<and> (Method req = ''GET'' \<or> Method req = ''HEAD'')
                then h1(''Content-Type'' \<mapsto> ''text/html; charset=utf-8'')
                else h1)
      in r\<lparr>Header := h2,
           StatusCode := (case StatusCode r of None \<Rightarrow> Some code | Some c \<Rightarrow> Some c),
           Written := Written r @
             (if \<not> hadCT \<and> Method req = ''GET''
              then ''<a href='' @ quoted url @ ''>'' @ StatusText code @ ''</a>.''
                     @ [CHR 0x0A, CHR 0x0A]
              else [])\<rparr>)"

definition exampleLib :: lib where
  "exampleLib =
     \<lparr>SHA256 = tabulated
        [(bodyPlain, digestPlain), (bodyEmptyBlobs, digestEmptyBlobs),
         (bodyWithBlobs, digestWithBlobs), (bodyNotJSON, digestNotJSON),
         (bodyIndex, digestIndex), (bodyReferrer, digestReferrer)],
      NewHash = tabulated
        [(String childDigest, childDigest), (String subjectDigest, subjectDigest),
         (String digestPlain, digestPlain), (String digestReferrer, digestReferrer)],
      IsIndex = (\<lambda>m. m = OCIImageIndex \<or> m = DockerManifestList),
      IsImage = (\<lambda>m. m = OCIManifestSchema1 \<or> m = DockerManifestSchema2),
      IsDistributable = (\<lambda>m. m \<noteq> DockerForeignLayer \<and> m \<noteq> OCIRestrictedLayer
                              \<and> m \<noteq> OCIUncompressedRestrictedLayer),
      ParseIndexManifest = tabulated
        [(bodyIndex,
          \<lparr>SchemaVersion = 2, iMediaType = [],
           Manifests = [\<lparr>dMediaType = OCIManifestSchema1, dSize = 2,
                         dDigest = childDigest, dArtifactType = []\<rparr>]\<rparr>)],
      ParseManifest = tabulated [],
      ParseJSON = (\<lambda>b.
        if b = bodyNotJSON then Inl (ErrOther ''invalid character in literal null'')
        else tabulated
          [(bodyPlain, JObject [(''schemaVersion'', JNumber ''2'')]),
           (bodyEmptyBlobs, JObject [(''blobs'', JArray [])]),
           (bodyWithBlobs, JObject [(''blobs'', JArray [JNumber ''1''])]),
           (bodyReferrer,
            JObject [(''schemaVersion'', JNumber ''2''),
                     (''config'', JObject [(''mediaType'', JString ''application/vnd.example.sbom'')]),
                     (''subject'', JObject [(''digest'', JString (String subjectDigest))])])] b),
      EqualFold = (\<lambda>a b. a = b),
      MarshalCatalog = (\<lambda>c. Inr (''{'' @ quoted ''repositories'' @ '':''
                                   @ marshalStrings (Repos c) @ ''}'')),
      MarshalListTags = (\<lambda>t. Inr (''{'' @ quoted ''name'' @ '':'' @ quoted (Name t) @ '',''
                                    @ quoted ''tags'' @ '':'' @ marshalStrings (Tags t) @ ''}'')),
      MarshalIndex = (\<lambda>im. Inr (marshalIndex im)),
      Quote = quoted,
      Error = errorText,
      JoinPath = (\<lambda>p e. p @ ''/'' @ e),
      Redirect = exampleRedirect\<rparr>"


text \<open>Example requests and worlds.\<close>

definition manifestPlain :: Manifest where
  "manifestPlain =
     \<lparr>ContentType = ''application/vnd.example+json'',
      Blob = \<lparr>Digest = digestPlain, Size = 19\<rparr>\<rparr>"

definition orphanWorld :: "(memDb, memBlobs) world" where
  "orphanWorld = emptyWorld\<lparr>db := [((''acme/app'', ''v1''), manifestPlain)]\<rparr>"

definition manifestRequest :: "string \<Rightarrow> string \<Rightarrow> err + bytes \<Rightarrow> request" where
  "manifestRequest method contentType body =
     \<lparr>Method = method, Path = ''/v2/acme/app/manifests/v1'', Query = [],
      ReqHeader = [(''Content-Type'', contentType)], Body = body\<rparr>"

definition childDescriptor :: Descriptor where
  "childDescriptor =
     \<lparr>dMediaType = OCIManifestSchema1, dSize = 2, dDigest = childDigest, dArtifactType = []\<rparr>"

definition tagsRequest :: "(string \<times> string) list \<Rightarrow> request" where
  "tagsRequest q =
     \<lparr>Method = ''GET'', Path = ''/v2/acme/app/tags/list'', Query = q,
      ReqHeader = [], Body = Inr []\<rparr>"

definition catalogRequest :: "(string \<times> string) list \<Rightarrow> request" where
  "catalogRequest q =
     \<lparr>Method = ''GET'', Path = ''/v2/_catalog'', Query = q, ReqHeader = [], Body = Inr []\<rparr>"

definition tagsWorld :: "(memDb, memBlobs) world" where
  "tagsWorld =
     emptyWorld\<lparr>db := [((''acme/app'', ''v1''), manifestPlain),
                         ((''acme/app'', ''v2''), manifestPlain),
                         ((''acme/app'', ''v3''), manifestPlain)]\<rparr>"

definition tagsBody :: bytes where
  \<open>tagsBody = ''{"name":"acme/app","tags":["v1","v2"]}''\<close>

definition pushedWorld :: "(memDb, memBlobs) world" where
  "pushedWorld =
     \<lparr>db = [((''acme/app'', ''v1''), manifestPlain),
            ((''acme/app'', String digestPlain), manifestPlain)],
      blobs = [((''acme/app'', digestPlain), (''application/vnd.example+json'', bodyPlain))],
      calls = [CallBlobPut ''acme/app'' digestPlain ''application/vnd.example+json'' bodyPlain,
               TxBegin,
               CallPut ''acme/app'' (String digestPlain) manifestPlain [],
               CallPut ''acme/app'' ''v1'' manifestPlain [],
               TxCommit],
      resp = \<lparr>Header = [''Docker-Content-Digest'' \<mapsto> String digestPlain,
                         ''OCI-Subject'' \<mapsto> String digestPlain,
                         ''Location'' \<mapsto> ''/v2/acme/app/manifests/v1/'' @ String digestPlain],
              StatusCode = Some 201, Written = []\<rparr>\<rparr>"

definition manifestReferrer :: Manifest where
  "manifestReferrer =
     \<lparr>ContentType = OCIManifestSchema1, Blob = \<lparr>Digest = digestReferrer, Size = 168\<rparr>\<rparr>"

definition referrersWorld :: "(memDb, memBlobs) world" where
  "referrersWorld =
     emptyWorld
       \<lparr>db := [((''acme/app'', String digestReferrer), manifestReferrer),
                ((''acme/app'', String digestPlain), manifestPlain)],
        blobs := [((''acme/app'', digestReferrer), (OCIManifestSchema1, bodyReferrer)),
                  ((''acme/app'', digestPlain), (''application/vnd.example+json'', bodyPlain))]\<rparr>"

definition unreadableWorld :: "(memDb, memBlobs) world" where
  "unreadableWorld =
     emptyWorld\<lparr>db := [((''acme/app'', String digestPlain), manifestPlain)]\<rparr>"

definition referrersRequest :: request where
  "referrersRequest =
     \<lparr>Method = ''GET'', Path = ''/v2/acme/app/referrers/'' @ String subjectDigest, Query = [],
      ReqHeader = [], Body = Inr []\<rparr>"

definition referrerDescriptor :: Descriptor where
  "referrerDescriptor =
     \<lparr>dMediaType = OCIManifestSchema1, dSize = 168, dDigest = digestReferrer,
      dArtifactType = ''application/vnd.example.sbom''\<rparr>"

definition redirectStores :: "(memDb, memBlobs) collab" where
  "redirectStores =
     memStores\<lparr>bGet := (\<lambda>b repo h allowRedirect.
                   if allowRedirect
                   then Inl (RedirectError (''https://blobs.example/'' @ String h) 307)
                   else bGet memStores b repo h allowRedirect)\<rparr>"

lemmas example_defs = exampleLib_def memStores_def emptyWorld_def newResponse_def tabulated_def
  bodyPlain_def bodyEmptyBlobs_def bodyWithBlobs_def bodyNotJSON_def bodyIndex_def bodyReferrer_def
  sha_def childDigest_def subjectDigest_def digestPlain_def digestEmptyBlobs_def digestWithBlobs_def
  digestNotJSON_def digestIndex_def digestReferrer_def OCIManifestSchema1_def DockerManifestSchema2_def
  DockerManifestList_def OCIImageIndex_def quoted_def errorText_def manifestRequest_def
  orphanWorld_def manifestPlain_def

section \<open>Frame lemmas for the dependency check\<close>

lemma logCall_sel [simp]:
  "db (logCall c w) = db w" "blobs (logCall c w) = blobs w" "resp (logCall c w) = resp w"
  "calls (logCall c w) = calls w @ [c]"
  by (simp_all add: logCall_def)

lemma indexDeps_frame:
  "indexDeps C L repo ds bs w = (r, w') \<Longrightarrow>
     db w' = db w \<and> blobs w' = blobs w \<and> resp w' = resp w
     \<and> filter isPutCall (calls w') = filter isPutCall (calls w)
     \<and> (\<forall>re. r = Inl re \<longrightarrow> Status re = 404 \<and> Code re = ''MANIFEST_UNKNOWN'')"
proof (induction ds arbitrary: bs w)
  case Nil
  then show ?case by auto
next
  case (Cons desc rest)
  show ?case
  proof (cases "IsDistributable L (dMediaType desc)")
    case False
    with Cons.prems have "indexDeps C L repo rest bs w = (r, w')" by simp
    from Cons.IH [OF this] show ?thesis .
  next
    case dist: True
    show ?thesis
    proof (cases "IsIndex L (dMediaType desc) \<or> IsImage L (dMediaType desc)")
      case True
      show ?thesis
      proof (cases "mGet C (db w) repo (String (dDigest desc))")
        case (Inl e)
        with Cons.prems dist True show ?thesis
          by (auto simp: storeGet_def logCall_def isPutCall_def StatusNotFound_def)
      next
        case (Inr m)
        with Cons.prems dist True
        have "indexDeps C L repo rest (bs @ [\<lparr>Digest = dDigest desc, Size = dSize desc\<rparr>])
                (logCall (CallGet repo (String (dDigest desc))) w) = (r, w')"
          by (auto simp: storeGet_def)
        from Cons.IH [OF this] show ?thesis
          by (simp add: logCall_def isPutCall_def)
      qed
    next
      case False
      with Cons.prems dist
      have "indexDeps C L repo rest bs
              (logCall (LogWarn (''TODO: Check blobs for '' @ Quote L (String (dDigest desc))
                              @ '' (MediaType: '' @ dMediaType desc @ '')'')) w) = (r, w')"
        by simp
      from Cons.IH [OF this] show ?thesis
        by (simp add: logCall_def isPutCall_def)
    qed
  qed
qed

lemma indexDeps_first_missing:
  "List.find (missingChild C L (db w) repo) ds = Some desc \<Longrightarrow>
     \<exists>w'. indexDeps C L repo ds bs w = (Inl (subManifestNotFound L desc), w')"
proof (induction ds arbitrary: bs w)
  case Nil
  then show ?case by simp
next
  case (Cons x rest)
  show ?case
  proof (cases "missingChild C L (db w) repo x")
    case True
    with Cons.prems have "desc = x" by simp
    moreover from True obtain e where "mGet C (db w) repo (String (dDigest x)) = Inl e"
      by (cases "mGet C (db w) repo (String (dDigest x))") (auto simp: missingChild_def)
    ultimately show ?thesis
      using True
      by (simp add: missingChild_def storeGet_def subManifestNotFound_def StatusNotFound_def)
  next
    case False
    with Cons.prems have f: "List.find (missingChild C L (db w) repo) rest = Some desc"
      by simp
    have dbs: "db (logCall c w) = db w" for c
      by (simp add: logCall_def)
    show ?thesis
    proof (cases "IsDistributable L (dMediaType x)")
      case nd: False
      with Cons.IH [OF f] show ?thesis by simp
    next
      case dist: True
      show ?thesis
      proof (cases "IsIndex L (dMediaType x) \<or> IsImage L (dMediaType x)")
        case True
        with False dist obtain m where m: "mGet C (db w) repo (String (dDigest x)) = Inr m"
          by (cases "mGet C (db w) repo (String (dDigest x))") (auto simp: missingChild_def)
        from f have "List.find (missingChild C L
                        (db (logCall (CallGet repo (String (dDigest x))) w)) repo) rest = Some desc"
          by (simp add: dbs)
        from Cons.IH [OF this] dist True m show ?thesis
          by (simp add: storeGet_def)
      next
        case other: False
        from f have "List.find (missingChild C L
                        (db (logCall (LogWarn (''TODO: Check blobs for ''
                               @ Quote L (String (dDigest x))
                               @ '' (MediaType: '' @ dMediaType x @ '')'')) w)) repo) rest
                      = Some desc"
          by (simp add: dbs)
        from Cons.IH [OF this] dist other show ?thesis
          by simp
      qed
    qed
  qed
qed

lemma collectDeps_frame:
  "collectDeps C L repo ct buf w = (r, w') \<Longrightarrow>
     db w' = db w \<and> blobs w' = blobs w \<and> resp w' = resp w
     \<and> filter isPutCall (calls w') = filter isPutCall (calls w)
     \<and> (\<forall>re. r = Inl re \<longrightarrow>
            Status re = 400 \<and> Code re = ''MANIFEST_INVALID''
            \<or> IsIndex L ct \<and> Status re = 404 \<and> Code re = ''MANIFEST_UNKNOWN'')"
  unfolding collectDeps_def
  by (auto split: if_splits sum.splits dest: indexDeps_frame simp: regErrManifestInvalid_def)

lemma collectDeps_plain:
  "\<not> IsIndex L ct \<Longrightarrow> \<not> IsImage L ct \<Longrightarrow> collectDeps C L repo ct buf w = (Inr [], w)"
  by (simp add: collectDeps_def)

lemma check_parse_error:
  "ParseJSON L buf = Inl e \<Longrightarrow> checkIncompatibleManifest L buf = Some (regErrManifestInvalid e)"
  by (simp add: checkIncompatibleManifest_def UnmarshalBlobs_def)

lemma handlePut_rejected_frame:
  assumes "Body req = Inr buf" and "checkIncompatibleManifest L buf = Some re0"
  shows "\<exists>re w'. handlePut C L req repo target w = (Some re, w')
           \<and> db w' = db w \<and> blobs w' = blobs w \<and> resp w' = resp w
           \<and> filter isPutCall (calls w') = filter isPutCall (calls w)
           \<and> (\<forall>d. SHA256 L buf = Inr d \<longrightarrow>
                  re = re0 \<or> collectDeps C L repo (Get (ReqHeader req) ''Content-Type'') buf w
                               = (Inl re, w'))"
proof (cases "SHA256 L buf")
  case (Inl e)
  with assms show ?thesis by (simp add: handlePut_def)
next
  case (Inr d)
  obtain r w1 where cd: "collectDeps C L repo (Get (ReqHeader req) ''Content-Type'') buf w = (r, w1)"
    by (cases "collectDeps C L repo (Get (ReqHeader req) ''Content-Type'') buf w")
  from collectDeps_frame [OF cd] cd assms Inr show ?thesis
    by (cases r) (simp_all add: handlePut_def Let_def)
qed

section \<open>GET and HEAD when the blob backend fails\<close>

text \<open>
  C9. GET of a manifest whose record exists: when the blob store's Get returns an error that
  is not a redirect directive, \<open>handleGet\<close> answers \<open>MANIFEST_UNKNOWN\<close> (HTTP 404), not
  \<open>INTERNAL\<close> (HTTP 500).
\<close>

theorem handleGet_blob_error_manifest_unknown:
  assumes "mGet C (db w) repo target = Inr m"
    and "bGet C (blobs w) repo (Digest (Blob m)) True = Inl e"
    and "errors_As_RedirectError e = None"
  shows "fst (handleGet C L req repo target w) = Some regErrManifestUnknown
       \<and> Status regErrManifestUnknown = 404
       \<and> Code regErrManifestUnknown = ''MANIFEST_UNKNOWN''
       \<and> fst (handleGet C L req repo target w) \<noteq> Some (regErrInternal e)"
  using assms
  by (simp add: handleGet_def storeGet_def blobGet_def logCall_def
      regErrManifestUnknown_def regErrInternal_def)

theorem handleGet_blob_error_manifest_unknown_witness:
  "fst (handleGet memStores exampleLib (manifestRequest ''GET'' [] (Inr [])) ''acme/app'' ''v1''
          orphanWorld) = Some regErrManifestUnknown
   \<and> Status regErrManifestUnknown = 404
   \<and> Code regErrManifestUnknown = ''MANIFEST_UNKNOWN''
   \<and> fst (handleGet memStores exampleLib (manifestRequest ''GET'' [] (Inr [])) ''acme/app'' ''v1''
          orphanWorld) \<noteq> Some (regErrInternal (ErrOther ''blob not found''))"
proof -
  have 1: "mGet memStores (db orphanWorld) ''acme/app'' ''v1'' = Inr manifestPlain"
    by (simp add: memStores_def orphanWorld_def emptyWorld_def)
  have 2: "bGet memStores (blobs orphanWorld) ''acme/app'' (Digest (Blob manifestPlain)) True
             = Inl (ErrOther ''blob not found'')"
    by (simp add: memStores_def orphanWorld_def emptyWorld_def)
  have 3: "errors_As_RedirectError (ErrOther ''blob not found'') = None"
    by simp
  show ?thesis
    by (rule handleGet_blob_error_manifest_unknown [OF 1 2 3])
qed

text \<open>
  C3, as stated, fails: with the manifest record present and the blob backend's Stat call
  failing, \<open>handleHead\<close> answers \<open>MANIFEST_UNKNOWN\<close> (HTTP 404), not \<open>INTERNAL\<close> (HTTP 500).
\<close>

theorem handleHead_stat_failure_counterexample:
  "mGet memStores (db orphanWorld) ''acme/app'' ''v1'' = Inr manifestPlain
   \<and> bStat memStores = Some memStat
   \<and> memStat (blobs orphanWorld) ''acme/app'' (Digest (Blob manifestPlain))
       = Inl (ErrOther ''blob not found'')
   \<and> fst (handleHead memStores exampleLib (manifestRequest ''HEAD'' [] (Inr [])) ''acme/app'' ''v1''
            orphanWorld) = Some regErrManifestUnknown
   \<and> Status regErrManifestUnknown = 404
   \<and> Status (regErrInternal (ErrOther ''blob not found'')) = 500"
  by (simp add: handleHead_def storeGet_def logCall_def memStores_def memStat_def
      orphanWorld_def emptyWorld_def regErrManifestUnknown_def regErrInternal_def)

text \<open>
  C3, amended. HEAD of a manifest whose record exists: when the blob backend's Stat call
  fails, \<open>handleHead\<close> answers \<open>MANIFEST_UNKNOWN\<close> (HTTP 404); it answers \<open>INTERNAL\<close>
  (HTTP 500) when the blob backend has no Stat capability at all.
\<close>

theorem handleHead_stat_failure:
  assumes "mGet C (db w) repo target = Inr m"
  shows "(\<forall>stat e. bStat C = Some stat \<longrightarrow> stat (blobs w) repo (Digest (Blob m)) = Inl e \<longrightarrow>
            fst (handleHead C L req repo target w) = Some regErrManifestUnknown
            \<and> Status regErrManifestUnknown = 404
            \<and> Code regErrManifestUnknown = ''MANIFEST_UNKNOWN'')
       \<and> (bStat C = None \<longrightarrow>
            fst (handleHead C L req repo target w)
              = Some (regErrInternal (ErrOther ''cannot stat blob''))
            \<and> Status (regErrInternal (ErrOther ''cannot stat blob'')) = 500
            \<and> Code (regErrInternal (ErrOther ''cannot stat blob'')) = ''INTERNAL'')"
  using assms
  by (auto simp add: handleHead_def storeGet_def logCall_def
      regErrManifestUnknown_def regErrInternal_def)

theorem handleHead_stat_failure_witness:
  "fst (handleHead memStores exampleLib (manifestRequest ''HEAD'' [] (Inr [])) ''acme/app'' ''v1''
          orphanWorld) = Some regErrManifestUnknown
   \<and> fst (handleHead (memStores\<lparr>bStat := None\<rparr>) exampleLib
            (manifestRequest ''HEAD'' [] (Inr [])) ''acme/app'' ''v1'' orphanWorld)
       = Some (regErrInternal (ErrOther ''cannot stat blob''))"
proof -
  have 1: "mGet memStores (db orphanWorld) ''acme/app'' ''v1'' = Inr manifestPlain"
    by (simp add: memStores_def orphanWorld_def emptyWorld_def)
  have 2: "bStat memStores = Some memStat"
    by (simp add: memStores_def)
  have 3: "memStat (blobs orphanWorld) ''acme/app'' (Digest (Blob manifestPlain))
             = Inl (ErrOther ''blob not found'')"
    by (simp add: memStat_def orphanWorld_def emptyWorld_def)
  have 4: "mGet (memStores\<lparr>bStat := None\<rparr>) (db orphanWorld) ''acme/app'' ''v1''
             = Inr manifestPlain"
    by (simp add: memStores_def orphanWorld_def emptyWorld_def)
  have 5: "bStat (memStores\<lparr>bStat := None\<rparr>) = None"
    by simp
  from handleHead_stat_failure [OF 1, of exampleLib "manifestRequest ''HEAD'' [] (Inr [])"] 2 3
  have a: "fst (handleHead memStores exampleLib (manifestRequest ''HEAD'' [] (Inr []))
                  ''acme/app'' ''v1'' orphanWorld) = Some regErrManifestUnknown"
    by blast
  from handleHead_stat_failure [OF 4, of exampleLib "manifestRequest ''HEAD'' [] (Inr [])"] 5
  have b: "fst (handleHead (memStores\<lparr>bStat := None\<rparr>) exampleLib
                  (manifestRequest ''HEAD'' [] (Inr [])) ''acme/app'' ''v1'' orphanWorld)
             = Some (regErrInternal (ErrOther ''cannot stat blob''))"
    by blast
  from a b show ?thesis by blast
qed

section \<open>PUT: the body must be JSON without a \<open>blobs\<close> entry\<close>

text \<open>
  C10. A PUT whose body does not parse as JSON is rejected whatever its Content-Type, and
  nothing is stored. When the Content-Type is neither an index nor an image media type, so
  that no dependencies are collected, the rejection is the \<open>MANIFEST_INVALID\<close> (HTTP 400)
  of \<open>checkIncompatibleManifest\<close>, and the world is untouched.
\<close>

theorem handlePut_rejects_non_json:
  assumes "Body req = Inr buf" and "ParseJSON L buf = Inl e"
  shows "fst (handlePut C L req repo target w) \<noteq> None
       \<and> db (snd (handlePut C L req repo target w)) = db w
       \<and> blobs (snd (handlePut C L req repo target w)) = blobs w
       \<and> (\<forall>d. SHA256 L buf = Inr d \<longrightarrow>
              \<not> IsIndex L (Get (ReqHeader req) ''Content-Type'') \<longrightarrow>
              \<not> IsImage L (Get (ReqHeader req) ''Content-Type'') \<longrightarrow>
                handlePut C L req repo target w = (checkIncompatibleManifest L buf, w)
                \<and> checkIncompatibleManifest L buf = Some (regErrManifestInvalid e)
                \<and> Status (regErrManifestInvalid e) = 400
                \<and> Code (regErrManifestInvalid e) = ''MANIFEST_INVALID'')"
proof -
  note chk = check_parse_error [OF assms(2)]
  from handlePut_rejected_frame [OF assms(1) chk, of C repo target w]
  have general: "fst (handlePut C L req repo target w) \<noteq> None
       \<and> db (snd (handlePut C L req repo target w)) = db w
       \<and> blobs (snd (handlePut C L req repo target w)) = blobs w"
    by auto
  have specific: "handlePut C L req repo target w = (checkIncompatibleManifest L buf, w)"
    if "SHA256 L buf = Inr d" "\<not> IsIndex L (Get (ReqHeader req) ''Content-Type'')"
       "\<not> IsImage L (Get (ReqHeader req) ''Content-Type'')" for d
    using that assms(1) chk
    by (simp add: handlePut_def Let_def collectDeps_plain)
  from general specific chk show ?thesis
    by (simp add: regErrManifestInvalid_def)
qed

theorem handlePut_rejects_non_json_witness:
  "fst (handlePut memStores exampleLib
          (manifestRequest ''PUT'' ''application/vnd.example+json'' (Inr bodyNotJSON))
          ''acme/app'' ''v1'' emptyWorld) \<noteq> None
   \<and> handlePut memStores exampleLib
          (manifestRequest ''PUT'' ''application/vnd.example+json'' (Inr bodyNotJSON))
          ''acme/app'' ''v1'' emptyWorld
       = (Some (regErrManifestInvalid (ErrOther ''invalid character in literal null'')), emptyWorld)
   \<and> Status (regErrManifestInvalid (ErrOther ''invalid character in literal null'')) = 400"
proof -
  let ?req = "manifestRequest ''PUT'' ''application/vnd.example+json'' (Inr bodyNotJSON)"
  have 1: "Body ?req = Inr bodyNotJSON"
    by (simp add: manifestRequest_def)
  have 2: "ParseJSON exampleLib bodyNotJSON = Inl (ErrOther ''invalid character in literal null'')"
    by (simp add: exampleLib_def)
  have 3: "SHA256 exampleLib bodyNotJSON = Inr digestNotJSON"
    by (simp add: example_defs)
  have 4: "\<not> IsIndex exampleLib (Get (ReqHeader ?req) ''Content-Type'')"
    by (simp add: example_defs Get_def)
  have 5: "\<not> IsImage exampleLib (Get (ReqHeader ?req) ''Content-Type'')"
    by (simp add: example_defs Get_def)
  from handlePut_rejects_non_json [OF 1 2, of memStores "''acme/app''" "''v1''" emptyWorld] 3 4 5
  show ?thesis by auto
qed

section \<open>PUT: the successful path\<close>

lemma Combine_pair_None:
  "Combine [e1, e2] = None \<longleftrightarrow> e1 = None \<and> e2 = None"
  by (cases e1; cases e2) (simp_all add: Combine_def List.map_filter_def)

lemma Combine_None_None: "Combine [None, None] = None"
  by (simp add: Combine_def List.map_filter_def)

lemma RunTx_putBoth_success:
  assumes "mPut C (db w) repo (String (Digest (Blob mf))) mf deps = (None, d1)"
    and "mPut C d1 repo target mf deps = (None, d2)"
  shows "RunTx (putBoth C repo target mf deps) w
           = (None, w\<lparr>db := d2,
                       calls := calls w @ [TxBegin,
                                           CallPut repo (String (Digest (Blob mf))) mf deps,
                                           CallPut repo target mf deps,
                                           TxCommit]\<rparr>)"
  using assms
  by (simp add: RunTx_def putBoth_def storePut_def logCall_def Combine_None_None)

lemma RunTx_putBoth_None:
  assumes "RunTx (putBoth C repo target mf deps) w = (None, w')"
  shows "\<exists>d1 d2. mPut C (db w) repo (String (Digest (Blob mf))) mf deps = (None, d1)
           \<and> mPut C d1 repo target mf deps = (None, d2)"
proof -
  obtain e1 d1 where p1: "mPut C (db w) repo (String (Digest (Blob mf))) mf deps = (e1, d1)"
    by (cases "mPut C (db w) repo (String (Digest (Blob mf))) mf deps")
  obtain e2 d2 where p2: "mPut C d1 repo target mf deps = (e2, d2)"
    by (cases "mPut C d1 repo target mf deps")
  from assms p1 p2 have "Combine [e1, e2] = None"
    by (auto simp: RunTx_def putBoth_def storePut_def logCall_def split: option.splits prod.splits)
  with p1 p2 show ?thesis by (simp add: Combine_pair_None)
qed

lemma handlePut_success:
  assumes "Body req = Inr buf" and "SHA256 L buf = Inr d"
    and "collectDeps C L repo (Get (ReqHeader req) ''Content-Type'') buf w = (Inr deps, w1)"
    and "checkIncompatibleManifest L buf = None"
    and "bPut C = Some put"
    and "put (blobs w1) repo d (Get (ReqHeader req) ''Content-Type'') buf = (None, b')"
    and "mPut C (db w1) repo (String d) (putManifest req buf d) deps = (None, d1)"
    and "mPut C d1 repo target (putManifest req buf d) deps = (None, d2)"
  shows "handlePut C L req repo target w
           = (None,
              WriteHeader StatusCreated
                (setHeader ''Location'' (JoinPath L (Path req) (String d))
                  (setHeader ''OCI-Subject'' (String d)
                    (setHeader ''Docker-Content-Digest'' (String d)
                      (w1\<lparr>blobs := b', db := d2,
                          calls := calls w1 @
                            [CallBlobPut repo d (Get (ReqHeader req) ''Content-Type'') buf,
                             TxBegin,
                             CallPut repo (String d) (putManifest req buf d) deps,
                             CallPut repo target (putManifest req buf d) deps,
                             TxCommit]\<rparr>)))))"
proof -
  let ?mf = "putManifest req buf d"
  let ?w2 = "logCall (CallBlobPut repo d (Get (ReqHeader req) ''Content-Type'') buf)
               (w1\<lparr>blobs := b'\<rparr>)"
  have tx: "RunTx (putBoth C repo target ?mf deps) ?w2
          = (None, ?w2\<lparr>db := d2,
                       calls := calls ?w2 @ [TxBegin,
                                           CallPut repo (String (Digest (Blob ?mf))) ?mf deps,
                                           CallPut repo target ?mf deps,
                                           TxCommit]\<rparr>)"
    by (rule RunTx_putBoth_success) (use assms(7,8) in \<open>simp_all add: putManifest_def logCall_def\<close>)
  show ?thesis
    using assms(1-6) tx
    by (simp add: handlePut_def Let_def putManifest_def logCall_def)
qed

lemma handlePut_None:
  assumes "handlePut C L req repo target w = (None, w')"
  shows "\<exists>buf d deps w1 put b' d1 d2.
           Body req = Inr buf \<and> SHA256 L buf = Inr d
         \<and> collectDeps C L repo (Get (ReqHeader req) ''Content-Type'') buf w = (Inr deps, w1)
         \<and> checkIncompatibleManifest L buf = None
         \<and> bPut C = Some put
         \<and> put (blobs w1) repo d (Get (ReqHeader req) ''Content-Type'') buf = (None, b')
         \<and> mPut C (db w1) repo (String d) (putManifest req buf d) deps = (None, d1)
         \<and> mPut C d1 repo target (putManifest req buf d) deps = (None, d2)"
proof -
  from assms obtain buf where b: "Body req = Inr buf"
    by (cases "Body req") (auto simp: handlePut_def)
  from assms b obtain d where d: "SHA256 L buf = Inr d"
    by (cases "SHA256 L buf") (auto simp: handlePut_def)
  let ?ct = "Get (ReqHeader req) ''Content-Type''"
  obtain r w1 where cd0: "collectDeps C L repo ?ct buf w = (r, w1)"
    by (cases "collectDeps C L repo ?ct buf w")
  with assms b d obtain deps where cd: "collectDeps C L repo ?ct buf w = (Inr deps, w1)"
    by (cases r) (auto simp: handlePut_def Let_def)
  from assms b d cd have chk: "checkIncompatibleManifest L buf = None"
    by (cases "checkIncompatibleManifest L buf") (auto simp: handlePut_def Let_def)
  from assms b d cd chk obtain put where put: "bPut C = Some put"
    by (cases "bPut C") (auto simp: handlePut_def Let_def)
  obtain e b' where p0: "put (blobs w1) repo d ?ct buf = (e, b')"
    by (cases "put (blobs w1) repo d ?ct buf")
  with assms b d cd chk put have p: "put (blobs w1) repo d ?ct buf = (None, b')"
    by (cases e) (auto simp: handlePut_def Let_def)
  let ?w2 = "logCall (CallBlobPut repo d ?ct buf) (w1\<lparr>blobs := b'\<rparr>)"
  obtain r3 w3 where tx0: "RunTx (putBoth C repo target (putManifest req buf d) deps) ?w2 = (r3, w3)"
    by (cases "RunTx (putBoth C repo target (putManifest req buf d) deps) ?w2")
  with assms b d cd chk put p have "r3 = None"
    by (cases r3) (auto simp: handlePut_def Let_def putManifest_def split: if_splits)
  with tx0 RunTx_putBoth_None [of C repo target "putManifest req buf d" deps ?w2 w3]
  obtain d1 d2 where "mPut C (db w1) repo (String d) (putManifest req buf d) deps = (None, d1)"
     "mPut C d1 repo target (putManifest req buf d) deps = (None, d2)"
    by (auto simp: logCall_def putManifest_def)
  with b d cd chk put p show ?thesis by blast
qed

section \<open>PUT: a body with a \<open>blobs\<close> entry\<close>

lemma decodeBlobsField_append:
  "decodeBlobsField L (xs @ ys) acc = decodeBlobsField L ys (decodeBlobsField L xs acc)"
  by (induction L xs acc rule: decodeBlobsField.induct) (auto split: jvalue.splits)

lemma decodeBlobsField_no_match:
  "list_all (\<lambda>kv. \<not> matchesField L ''blobs'' (fst kv)) kvs \<Longrightarrow> decodeBlobsField L kvs acc = acc"
  by (induction L kvs acc rule: decodeBlobsField.induct) auto

lemma check_blobs_entry:
  assumes "ParseJSON L buf = Inr (JObject (kvs1 @ [(k, JArray (x # xs))] @ kvs2))"
    and "matchesField L ''blobs'' k"
    and "list_all (\<lambda>kv. \<not> matchesField L ''blobs'' (fst kv)) kvs2"
  shows "\<exists>e. checkIncompatibleManifest L buf = Some (regErrManifestInvalid e)"
proof -
  obtain e bs where acc: "decodeBlobsField L kvs1 (None, []) = (e, bs)"
    by (cases "decodeBlobsField L kvs1 (None, [])")
  have "decodeBlobsField L (kvs1 @ [(k, JArray (x # xs))] @ kvs2) (None, []) = (e, x # xs)"
    using assms(2,3) acc by (simp add: decodeBlobsField_append decodeBlobsField_no_match)
  with assms(1) show ?thesis
    by (cases e) (auto simp add: checkIncompatibleManifest_def UnmarshalBlobs_def)
qed

text \<open>A successful push into the empty in-memory stores, in full.\<close>

lemma example_put:
  assumes "SHA256 exampleLib buf = Inr d"
    and "checkIncompatibleManifest exampleLib buf = None"
  shows "handlePut (memStores\<lparr>bGet := g\<rparr>) exampleLib
           (manifestRequest ''PUT'' ''application/vnd.example+json'' (Inr buf))
           ''acme/app'' ''v1'' emptyWorld
         = (None,
            \<lparr>db = [((''acme/app'', ''v1''),
                     \<lparr>ContentType = ''application/vnd.example+json'',
                      Blob = \<lparr>Digest = d, Size = int (length buf)\<rparr>\<rparr>),
                    ((''acme/app'', String d),
                     \<lparr>ContentType = ''application/vnd.example+json'',
                      Blob = \<lparr>Digest = d, Size = int (length buf)\<rparr>\<rparr>)],
              blobs = [((''acme/app'', d), (''application/vnd.example+json'', buf))],
              calls = [CallBlobPut ''acme/app'' d ''application/vnd.example+json'' buf,
                       TxBegin,
                       CallPut ''acme/app'' (String d)
                         \<lparr>ContentType = ''application/vnd.example+json'',
                          Blob = \<lparr>Digest = d, Size = int (length buf)\<rparr>\<rparr> [],
                       CallPut ''acme/app'' ''v1''
                         \<lparr>ContentType = ''application/vnd.example+json'',
                          Blob = \<lparr>Digest = d, Size = int (length buf)\<rparr>\<rparr> [],
                       TxCommit],
              resp = \<lparr>Header = [''Docker-Content-Digest'' \<mapsto> String d,
                                 ''OCI-Subject'' \<mapsto> String d,
                                 ''Location'' \<mapsto> ''/v2/acme/app/manifests/v1/'' @ String d],
                      StatusCode = Some 201, Written = []\<rparr>\<rparr>)"
proof -
  let ?req = "manifestRequest ''PUT'' ''application/vnd.example+json'' (Inr buf)"
  have ct: "Get (ReqHeader ?req) ''Content-Type'' = ''application/vnd.example+json''"
    by (simp add: manifestRequest_def Get_def)
  have 1: "Body ?req = Inr buf"
    by (simp add: manifestRequest_def)
  let ?C = "memStores\<lparr>bGet := g\<rparr>"
  have 3: "collectDeps ?C exampleLib ''acme/app'' (Get (ReqHeader ?req) ''Content-Type'')
             buf emptyWorld = (Inr [], emptyWorld)"
    unfolding ct by (rule collectDeps_plain) (simp_all add: exampleLib_def OCIImageIndex_def
        DockerManifestList_def OCIManifestSchema1_def DockerManifestSchema2_def)
  have 5: "bPut ?C = Some memPut"
    by (simp add: memStores_def)
  have 6: "memPut (blobs emptyWorld) ''acme/app'' d (Get (ReqHeader ?req) ''Content-Type'') buf
             = (None, [((''acme/app'', d), (''application/vnd.example+json'', buf))])"
    by (simp add: memPut_def emptyWorld_def ct)
  have 7: "mPut ?C (db emptyWorld) ''acme/app'' (String d) (putManifest ?req buf d) []
             = (None, [((''acme/app'', String d), putManifest ?req buf d)])"
    by (simp add: memStores_def emptyWorld_def)
  have 8: "mPut ?C [((''acme/app'', String d), putManifest ?req buf d)] ''acme/app'' ''v1''
             (putManifest ?req buf d) []
             = (None, [((''acme/app'', ''v1''), putManifest ?req buf d),
                       ((''acme/app'', String d), putManifest ?req buf d)])"
    by (simp add: memStores_def)
  show ?thesis
    unfolding handlePut_success [OF 1 assms(1) 3 assms(2) 5 6 7 8]
    by (simp add: WriteHeader_def setHeader_def emptyWorld_def newResponse_def putManifest_def ct
        StatusCreated_def exampleLib_def manifestRequest_def Get_def)
qed

lemma memStores_bGet: "memStores\<lparr>bGet := bGet memStores\<rparr> = memStores"
  by simp

lemma example_sha_emptyBlobs: "SHA256 exampleLib bodyEmptyBlobs = Inr digestEmptyBlobs"
  by (simp add: exampleLib_def tabulated_def bodyPlain_def bodyEmptyBlobs_def)

lemma example_parse_emptyBlobs:
  "ParseJSON exampleLib bodyEmptyBlobs = Inr (JObject [(''blobs'', JArray [])])"
  by (simp add: exampleLib_def tabulated_def bodyPlain_def bodyEmptyBlobs_def bodyNotJSON_def)

lemma example_check_emptyBlobs: "checkIncompatibleManifest exampleLib bodyEmptyBlobs = None"
  by (simp add: checkIncompatibleManifest_def UnmarshalBlobs_def example_parse_emptyBlobs
      matchesField_def)

text \<open>
  C5, as stated, fails for an empty array: a body whose top-level \<open>blobs\<close> member is
  \<open>[]\<close> passes \<open>checkIncompatibleManifest\<close> (the guard is \<open>len(mf.Blobs) > 0\<close>), and
  the PUT is stored and answered 201.
\<close>

theorem handlePut_empty_blobs_counterexample:
  "ParseJSON exampleLib bodyEmptyBlobs = Inr (JObject [(''blobs'', JArray [])])
   \<and> fst (handlePut memStores exampleLib
            (manifestRequest ''PUT'' ''application/vnd.example+json'' (Inr bodyEmptyBlobs))
            ''acme/app'' ''v1'' emptyWorld) = None
   \<and> StatusCode (resp (snd (handlePut memStores exampleLib
            (manifestRequest ''PUT'' ''application/vnd.example+json'' (Inr bodyEmptyBlobs))
            ''acme/app'' ''v1'' emptyWorld))) = Some 201
   \<and> blobs (snd (handlePut memStores exampleLib
            (manifestRequest ''PUT'' ''application/vnd.example+json'' (Inr bodyEmptyBlobs))
            ''acme/app'' ''v1'' emptyWorld))
       = [((''acme/app'', digestEmptyBlobs), (''application/vnd.example+json'', bodyEmptyBlobs))]"
  using example_put [OF example_sha_emptyBlobs example_check_emptyBlobs, of "bGet memStores"]
  by (simp add: example_parse_emptyBlobs)

text \<open>
  C5, amended. A PUT whose body is a JSON object in which the last member that
  \<open>json.Unmarshal\<close> binds to the field \<open>blobs\<close> is a non-empty array is rejected and nothing
  is stored: no blob-store or manifest-store Put is reached. A member is bound to the field
  when its key is \<open>blobs\<close> or equals it under the decoder's case folding, so the array is
  followed by no member with such a key (a later \<open>"BLOBS": []\<close> would replace it). The error
  is \<open>MANIFEST_INVALID\<close> (HTTP 400), unless the Content-Type is an index media type and the
  dependency check, which runs first, has already failed with \<open>MANIFEST_UNKNOWN\<close> (HTTP 404).
\<close>

theorem handlePut_rejects_blobs_entry:
  assumes "Body req = Inr buf" and "SHA256 L buf = Inr d"
    and "ParseJSON L buf = Inr (JObject (kvs1 @ [(k, JArray (x # xs))] @ kvs2))"
    and "matchesField L ''blobs'' k"
    and "list_all (\<lambda>kv. \<not> matchesField L ''blobs'' (fst kv)) kvs2"
  shows "\<exists>re w'. handlePut C L req repo target w = (Some re, w')
           \<and> (Status re = 400 \<and> Code re = ''MANIFEST_INVALID''
              \<or> IsIndex L (Get (ReqHeader req) ''Content-Type'')
                \<and> Status re = 404 \<and> Code re = ''MANIFEST_UNKNOWN'')
           \<and> db w' = db w \<and> blobs w' = blobs w
           \<and> filter isPutCall (calls w') = filter isPutCall (calls w)"
proof -
  from check_blobs_entry [OF assms(3-5)]
  obtain e where chk: "checkIncompatibleManifest L buf = Some (regErrManifestInvalid e)" ..
  from handlePut_rejected_frame [OF assms(1) chk, of C repo target w] assms(2)
  obtain re w' where r: "handlePut C L req repo target w = (Some re, w')"
    and frame: "db w' = db w" "blobs w' = blobs w"
      "filter isPutCall (calls w') = filter isPutCall (calls w)"
    and src: "re = regErrManifestInvalid e
              \<or> collectDeps C L repo (Get (ReqHeader req) ''Content-Type'') buf w = (Inl re, w')"
    by blast
  from src have "Status re = 400 \<and> Code re = ''MANIFEST_INVALID''
              \<or> IsIndex L (Get (ReqHeader req) ''Content-Type'')
                \<and> Status re = 404 \<and> Code re = ''MANIFEST_UNKNOWN''"
  proof
    assume "re = regErrManifestInvalid e"
    then show ?thesis by (simp add: regErrManifestInvalid_def)
  next
    assume "collectDeps C L repo (Get (ReqHeader req) ''Content-Type'') buf w = (Inl re, w')"
    from collectDeps_frame [OF this] show ?thesis by blast
  qed
  with r frame show ?thesis by blast
qed

theorem handlePut_rejects_blobs_entry_witness:
  "\<exists>re w'. handlePut memStores exampleLib
              (manifestRequest ''PUT'' ''application/vnd.example+json'' (Inr bodyWithBlobs))
              ''acme/app'' ''v1'' emptyWorld = (Some re, w')
           \<and> Status re = 400 \<and> Code re = ''MANIFEST_INVALID''
           \<and> db w' = db emptyWorld \<and> blobs w' = blobs emptyWorld
           \<and> filter isPutCall (calls w') = filter isPutCall (calls emptyWorld)"
proof -
  let ?req = "manifestRequest ''PUT'' ''application/vnd.example+json'' (Inr bodyWithBlobs)"
  have 1: "Body ?req = Inr bodyWithBlobs"
    by (simp add: manifestRequest_def)
  have 2: "SHA256 exampleLib bodyWithBlobs = Inr digestWithBlobs"
    by (simp add: exampleLib_def tabulated_def bodyPlain_def bodyEmptyBlobs_def bodyWithBlobs_def)
  have 3: "ParseJSON exampleLib bodyWithBlobs
             = Inr (JObject ([] @ [(''blobs'', JArray (JNumber ''1'' # []))] @ []))"
    by (simp add: exampleLib_def tabulated_def bodyPlain_def bodyEmptyBlobs_def bodyWithBlobs_def
        bodyNotJSON_def)
  have 4: "matchesField exampleLib ''blobs'' ''blobs''"
    by (simp add: matchesField_def)
  have 5: "list_all (\<lambda>kv. \<not> matchesField exampleLib ''blobs'' (fst kv)) []"
    by simp
  have 6: "\<not> IsIndex exampleLib (Get (ReqHeader ?req) ''Content-Type'')"
    by (simp add: exampleLib_def manifestRequest_def Get_def OCIImageIndex_def
        DockerManifestList_def)
  from handlePut_rejects_blobs_entry [OF 1 2 3 4 5, of memStores "''acme/app''" "''v1''" emptyWorld] 6
  show ?thesis by blast
qed

section \<open>PUT: the response of a successful push\<close>

text \<open>
  C6. Every successful PUT (the handler returns no error) responds 201 Created, with the
  headers \<open>Docker-Content-Digest\<close> and \<open>OCI-Subject\<close> both the SHA-256 digest of the
  buffered body and \<open>Location\<close> the request path joined with that digest.
\<close>

theorem handlePut_created_headers:
  assumes "handlePut C L req repo target w = (None, w')" and "StatusCode (resp w) = None"
  shows "\<exists>buf d. Body req = Inr buf \<and> SHA256 L buf = Inr d
           \<and> StatusCode (resp w') = Some 201
           \<and> Header (resp w') ''Docker-Content-Digest'' = Some (String d)
           \<and> Header (resp w') ''OCI-Subject'' = Some (String d)
           \<and> Header (resp w') ''Location'' = Some (JoinPath L (Path req) (String d))"
proof -
  from handlePut_None [OF assms(1)]
  obtain buf d deps w1 put b' d1 d2 where
    h: "Body req = Inr buf" "SHA256 L buf = Inr d"
       "collectDeps C L repo (Get (ReqHeader req) ''Content-Type'') buf w = (Inr deps, w1)"
       "checkIncompatibleManifest L buf = None"
       "bPut C = Some put"
       "put (blobs w1) repo d (Get (ReqHeader req) ''Content-Type'') buf = (None, b')"
       "mPut C (db w1) repo (String d) (putManifest req buf d) deps = (None, d1)"
       "mPut C d1 repo target (putManifest req buf d) deps = (None, d2)"
    by blast
  from collectDeps_frame [OF h(3)] assms(2) have fresh: "StatusCode (resp w1) = None"
    by simp
  from assms(1) have w': "w' = snd (handlePut C L req repo target w)"
    by simp
  have "StatusCode (resp w') = Some 201
      \<and> Header (resp w') ''Docker-Content-Digest'' = Some (String d)
      \<and> Header (resp w') ''OCI-Subject'' = Some (String d)
      \<and> Header (resp w') ''Location'' = Some (JoinPath L (Path req) (String d))"
    unfolding w' handlePut_success [OF h]
    using fresh
    by (simp add: WriteHeader_def setHeader_def StatusCreated_def)
  with h(1,2) show ?thesis by blast
qed

lemma example_sha_plain: "SHA256 exampleLib bodyPlain = Inr digestPlain"
  by (simp add: exampleLib_def tabulated_def)

lemma example_check_plain: "checkIncompatibleManifest exampleLib bodyPlain = None"
  by (simp add: checkIncompatibleManifest_def UnmarshalBlobs_def exampleLib_def tabulated_def
      bodyPlain_def bodyNotJSON_def matchesField_def)

theorem handlePut_created_headers_witness:
  "StatusCode (resp (snd (handlePut memStores exampleLib
       (manifestRequest ''PUT'' ''application/vnd.example+json'' (Inr bodyPlain))
       ''acme/app'' ''v1'' emptyWorld))) = Some 201
   \<and> Header (resp (snd (handlePut memStores exampleLib
       (manifestRequest ''PUT'' ''application/vnd.example+json'' (Inr bodyPlain))
       ''acme/app'' ''v1'' emptyWorld))) ''Docker-Content-Digest'' = Some (String digestPlain)
   \<and> Header (resp (snd (handlePut memStores exampleLib
       (manifestRequest ''PUT'' ''application/vnd.example+json'' (Inr bodyPlain))
       ''acme/app'' ''v1'' emptyWorld))) ''OCI-Subject'' = Some (String digestPlain)
   \<and> Header (resp (snd (handlePut memStores exampleLib
       (manifestRequest ''PUT'' ''application/vnd.example+json'' (Inr bodyPlain))
       ''acme/app'' ''v1'' emptyWorld))) ''Location''
       = Some (JoinPath exampleLib ''/v2/acme/app/manifests/v1'' (String digestPlain))"
proof -
  let ?req = "manifestRequest ''PUT'' ''application/vnd.example+json'' (Inr bodyPlain)"
  let ?r = "handlePut memStores exampleLib ?req ''acme/app'' ''v1'' emptyWorld"
  have 1: "?r = (None, snd ?r)"
    using example_put [OF example_sha_plain example_check_plain, of "bGet memStores"]
    by simp
  have 2: "StatusCode (resp emptyWorld) = None"
    by (simp add: emptyWorld_def newResponse_def)
  have 3: "Body ?req = Inr bodyPlain" "Path ?req = ''/v2/acme/app/manifests/v1''"
    by (simp_all add: manifestRequest_def)
  from handlePut_created_headers [OF 1 2] 3 example_sha_plain
  show ?thesis by auto
qed

section \<open>PUT: an index whose child is missing\<close>

text \<open>
  C2. A PUT with an index Content-Type whose body parses as an index manifest: if some
  sub-descriptor is distributable, has an image or index media type, and the manifest
  store's Get of its digest in the same repo fails, the PUT fails with \<open>MANIFEST_UNKNOWN\<close>
  (HTTP 404), the message quoting the digest of the first such sub-descriptor, and nothing
  is recorded: the stores are unchanged and no blob-store or manifest-store Put is called.
\<close>

theorem handlePut_index_missing_child:
  assumes "Body req = Inr buf" and "SHA256 L buf = Inr d"
    and "IsIndex L (Get (ReqHeader req) ''Content-Type'')"
    and "ParseIndexManifest L buf = Inr im"
    and "x \<in> set (Manifests im)" and "missingChild C L (db w) repo x"
  shows "\<exists>desc w'. List.find (missingChild C L (db w) repo) (Manifests im) = Some desc
           \<and> handlePut C L req repo target w = (Some (subManifestNotFound L desc), w')
           \<and> Status (subManifestNotFound L desc) = 404
           \<and> Code (subManifestNotFound L desc) = ''MANIFEST_UNKNOWN''
           \<and> Message (subManifestNotFound L desc)
               = ''Sub-manifest '' @ Quote L (String (dDigest desc)) @ '' not found''
           \<and> db w' = db w \<and> blobs w' = blobs w
           \<and> filter isPutCall (calls w') = filter isPutCall (calls w)"
proof -
  from assms(5,6) obtain desc
    where f: "List.find (missingChild C L (db w) repo) (Manifests im) = Some desc"
    by (cases "List.find (missingChild C L (db w) repo) (Manifests im)")
       (auto simp: find_None_iff)
  from indexDeps_first_missing [OF f, of "[]"]
  obtain w' where i: "indexDeps C L repo (Manifests im) [] w = (Inl (subManifestNotFound L desc), w')"
    by blast
  from indexDeps_frame [OF i]
  have frame: "db w' = db w" "blobs w' = blobs w"
      "filter isPutCall (calls w') = filter isPutCall (calls w)"
    by simp_all
  from i assms(1-4)
  have "handlePut C L req repo target w = (Some (subManifestNotFound L desc), w')"
    by (simp add: handlePut_def Let_def collectDeps_def)
  with f frame show ?thesis
    by (simp add: subManifestNotFound_def)
qed

theorem handlePut_index_missing_child_witness:
  "\<exists>w'. handlePut memStores exampleLib (manifestRequest ''PUT'' OCIImageIndex (Inr bodyIndex))
           ''acme/app'' ''v1'' emptyWorld
         = (Some \<lparr>Status = 404, Code = ''MANIFEST_UNKNOWN'',
                  Message = ''Sub-manifest '' @ quoted (String childDigest) @ '' not found''\<rparr>, w')
       \<and> db w' = [] \<and> blobs w' = [] \<and> filter isPutCall (calls w') = []"
proof -
  let ?req = "manifestRequest ''PUT'' OCIImageIndex (Inr bodyIndex)"
  let ?im = "\<lparr>SchemaVersion = 2, iMediaType = [], Manifests = [childDescriptor]\<rparr>"
  have 1: "Body ?req = Inr bodyIndex"
    by (simp add: manifestRequest_def)
  have 2: "SHA256 exampleLib bodyIndex = Inr digestIndex"
    by (simp add: exampleLib_def tabulated_def bodyPlain_def bodyEmptyBlobs_def bodyWithBlobs_def
        bodyNotJSON_def bodyIndex_def)
  have 3: "IsIndex exampleLib (Get (ReqHeader ?req) ''Content-Type'')"
    by (simp add: exampleLib_def manifestRequest_def Get_def)
  have 4: "ParseIndexManifest exampleLib bodyIndex = Inr ?im"
    by (simp add: exampleLib_def tabulated_def childDescriptor_def)
  have 5: "childDescriptor \<in> set (Manifests ?im)"
    by simp
  have 6: "missingChild memStores exampleLib (db emptyWorld) ''acme/app'' childDescriptor"
    by (simp add: missingChild_def memStores_def exampleLib_def emptyWorld_def childDescriptor_def
        OCIManifestSchema1_def DockerForeignLayer_def OCIRestrictedLayer_def
        OCIUncompressedRestrictedLayer_def)
  have 7: "List.find (missingChild memStores exampleLib (db emptyWorld) ''acme/app'')
             (Manifests ?im) = Some childDescriptor"
    using 6 by simp
  from handlePut_index_missing_child [OF 1 2 3 4 5 6, of "''v1''"] 7
  show ?thesis
    by (auto simp: subManifestNotFound_def childDescriptor_def exampleLib_def emptyWorld_def)
qed

section \<open>Tag listing and catalog: the query parameter \<open>n\<close>\<close>

lemma Atoi_syntax_zero:
  "Atoi s = (v, Some (NumError f num ErrSyntax)) \<Longrightarrow> v = 0"
  by (auto simp: Atoi_def ParseInt_def Let_def split: prod.splits option.splits if_splits)

lemma Atoi_range_bound:
  "Atoi s = (v, Some (NumError f num ErrRange)) \<Longrightarrow> v = 2 ^ 63 - 1 \<or> v = - (2 ^ 63)"
  by (auto simp: Atoi_def ParseInt_def Let_def split: prod.splits option.splits if_splits)

text \<open>
  C7, as stated, fails for an empty value: with \<open>?n=\<close> the parameter is present and does not
  parse as an integer, yet the handler does not return \<open>BAD_REQUEST\<close>: it calls the store with
  \<open>n = 10000\<close> and answers 200, because the guard is \<open>ns != ""\<close>.
\<close>

theorem handleTags_empty_n_counterexample:
  "map_of (Query (tagsRequest [(''n'', [])])) ''n'' = Some []
   \<and> Atoi [] = (0, Some (NumError ''Atoi'' [] ErrSyntax))
   \<and> fst (handleTags memStores exampleLib (tagsRequest [(''n'', [])]) tagsWorld) = Return None
   \<and> calls (snd (handleTags memStores exampleLib (tagsRequest [(''n'', [])]) tagsWorld))
       = [CallListTags ''acme/app'' 10000 []]
   \<and> StatusCode (resp (snd (handleTags memStores exampleLib (tagsRequest [(''n'', [])])
                               tagsWorld))) = Some 200"
proof -
  have a: "Atoi [] = (0, Some (NumError ''Atoi'' [] ErrSyntax))"
    by (simp add: Atoi_def ParseInt_def)
  have p: "tl (Split (Path (tagsRequest [(''n'', [])])) (CHR ''/''))
             = [''v2'', ''acme'', ''app'', ''tags'', ''list'']"
    by (simp add: tagsRequest_def)
  have q: "Get (Query (tagsRequest [(''n'', [])])) ''n'' = []"
    "Get (Query (tagsRequest [(''n'', [])])) ''last'' = []"
    "Method (tagsRequest [(''n'', [])]) = ''GET''"
    "map_of (Query (tagsRequest [(''n'', [])])) ''n'' = Some []"
    by (simp_all add: tagsRequest_def Get_def)
  have l: "mListTags memStores (db tagsWorld) ''acme/app'' 10000 [] = Inr [''v1'', ''v2'', ''v3'']"
    by (simp add: memStores_def tagsWorld_def emptyWorld_def)
  have h: "fst (handleTags memStores exampleLib (tagsRequest [(''n'', [])]) tagsWorld)
             = Return None
         \<and> calls (snd (handleTags memStores exampleLib (tagsRequest [(''n'', [])]) tagsWorld))
             = [CallListTags ''acme/app'' 10000 []]
         \<and> StatusCode (resp (snd (handleTags memStores exampleLib (tagsRequest [(''n'', [])])
                               tagsWorld))) = Some 200"
    unfolding handleTags_def p q Let_def
    by (simp add: l, simp add: memStores_def exampleLib_def tagsWorld_def emptyWorld_def
        newResponse_def logCall_def setHeader_def WriteHeader_def copyToResp_def StatusOK_def)
  from a q(4) h show ?thesis by simp
qed

text \<open>
  C7, amended. An authorized GET of the tag list, with \<open>ns\<close> the value \<open>Query().Get("n")\<close>
  yields (the empty string when \<open>n\<close> is absent or empty): if \<open>ns\<close> is empty the store's
  ListTags is called with \<open>n = 10000\<close>; if \<open>ns\<close> is not empty and \<open>strconv.Atoi\<close> fails, the
  handler returns \<open>BAD_REQUEST\<close> (HTTP 400) and the world is untouched (the store is not
  called); otherwise ListTags is called with the parsed \<open>n\<close>, and when listing, marshalling
  and writing succeed the response body is the marshalled \<open>{name: repo, tags: references}\<close>
  and \<open>Content-Length\<close> is the decimal length of that body.
\<close>

theorem handleTags_n:
  assumes "Method req = ''GET''"
    and "elem = tl (Split (Path req) (CHR ''/''))" and "3 \<le> length elem"
    and "repo = Join (take (length elem - 3) (drop 1 elem)) ''/''"
    and "Authorize C repo ActionRead = None"
    and "ns = Get (Query req) ''n''" and "lst = Get (Query req) ''last''"
  shows "(ns = [] \<longrightarrow>
            calls (snd (handleTags C L req w)) = calls w @ [CallListTags repo 10000 lst])
       \<and> (\<forall>v e. ns \<noteq> [] \<longrightarrow> Atoi ns = (v, Some e) \<longrightarrow>
            handleTags C L req w
              = (Return (Some \<lparr>Status = 400, Code = ''BAD_REQUEST'',
                               Message = ''parsing n: '' @ Error L e\<rparr>), w))
       \<and> (\<forall>n. ns \<noteq> [] \<longrightarrow> Atoi ns = (n, None) \<longrightarrow>
            calls (snd (handleTags C L req w)) = calls w @ [CallListTags repo n lst])
       \<and> (\<forall>n refs msg.
            (ns = [] \<and> n = 10000 \<or> ns \<noteq> [] \<and> Atoi ns = (n, None)) \<longrightarrow>
            mListTags C (db w) repo n lst = Inr refs \<longrightarrow>
            MarshalListTags L \<lparr>Name = repo, Tags = refs\<rparr> = Inr msg \<longrightarrow>
            respWrite C msg = None \<longrightarrow>
              fst (handleTags C L req w) = Return None
              \<and> Written (resp (snd (handleTags C L req w))) = Written (resp w) @ msg
              \<and> Header (resp (snd (handleTags C L req w))) ''Content-Length''
                  = Some (Sprint_nat (length msg)))"
proof -
  have a: "ns = [] \<Longrightarrow>
            calls (snd (handleTags C L req w)) = calls w @ [CallListTags repo 10000 lst]"
    using assms
    by (auto simp: handleTags_def Let_def logCall_def setHeader_def WriteHeader_def copyToResp_def
        split: sum.splits option.splits)
  have b: "handleTags C L req w
              = (Return (Some \<lparr>Status = 400, Code = ''BAD_REQUEST'',
                               Message = ''parsing n: '' @ Error L e\<rparr>), w)"
    if "ns \<noteq> []" "Atoi ns = (v, Some e)" for v e
    using assms that
    by (simp add: handleTags_def Let_def StatusBadRequest_def)
  have c: "calls (snd (handleTags C L req w)) = calls w @ [CallListTags repo n lst]"
    if "ns \<noteq> []" "Atoi ns = (n, None)" for n
    using assms that
    by (auto simp: handleTags_def Let_def logCall_def setHeader_def WriteHeader_def copyToResp_def
        split: sum.splits option.splits)
  have d: "fst (handleTags C L req w) = Return None
              \<and> Written (resp (snd (handleTags C L req w))) = Written (resp w) @ msg
              \<and> Header (resp (snd (handleTags C L req w))) ''Content-Length''
                  = Some (Sprint_nat (length msg))"
    if "ns = [] \<and> n = 10000 \<or> ns \<noteq> [] \<and> Atoi ns = (n, None)"
       "mListTags C (db w) repo n lst = Inr refs"
       "MarshalListTags L \<lparr>Name = repo, Tags = refs\<rparr> = Inr msg"
       "respWrite C msg = None" for n refs msg
    using assms that
    by (auto simp: handleTags_def Let_def logCall_def setHeader_def WriteHeader_def copyToResp_def
        split: option.splits)
  from a b c d show ?thesis by blast
qed

lemma tags_path:
  "tl (Split (Path (tagsRequest q)) (CHR ''/'')) = [''v2'', ''acme'', ''app'', ''tags'', ''list'']"
  by (simp add: tagsRequest_def)

theorem handleTags_n_witness:
  "calls (snd (handleTags memStores exampleLib (tagsRequest []) tagsWorld))
     = [CallListTags ''acme/app'' 10000 []]
   \<and> handleTags memStores exampleLib (tagsRequest [(''n'', ''abc'')]) tagsWorld
       = (Return (Some \<lparr>Status = 400, Code = ''BAD_REQUEST'',
                        Message = ''parsing n: ''
                          @ Error exampleLib (NumError ''Atoi'' ''abc'' ErrSyntax)\<rparr>), tagsWorld)
   \<and> calls (snd (handleTags memStores exampleLib (tagsRequest [(''n'', ''2'')]) tagsWorld))
       = [CallListTags ''acme/app'' 2 []]
   \<and> fst (handleTags memStores exampleLib (tagsRequest [(''n'', ''2'')]) tagsWorld) = Return None
   \<and> Written (resp (snd (handleTags memStores exampleLib (tagsRequest [(''n'', ''2'')])
                            tagsWorld))) = tagsBody
   \<and> Header (resp (snd (handleTags memStores exampleLib (tagsRequest [(''n'', ''2'')])
                           tagsWorld))) ''Content-Length'' = Some ''38''"
proof -
  have m: "Method (tagsRequest q) = ''GET''" for q
    by (simp add: tagsRequest_def)
  have len: "3 \<le> length [''v2'', ''acme'', ''app'', ''tags'', ''list'']"
    by simp
  have repo: "''acme/app''
      = Join (take (length [''v2'', ''acme'', ''app'', ''tags'', ''list''] - 3)
               (drop 1 [''v2'', ''acme'', ''app'', ''tags'', ''list''])) ''/''"
    by simp
  have auth: "Authorize memStores ''acme/app'' ActionRead = None"
    by (simp add: memStores_def)
  have q0: "[] = Get (Query (tagsRequest [])) ''n''" "[] = Get (Query (tagsRequest [])) ''last''"
    by (simp_all add: tagsRequest_def Get_def)
  have qabc: "''abc'' = Get (Query (tagsRequest [(''n'', ''abc'')])) ''n''"
    by (simp add: tagsRequest_def Get_def)
  have q2: "''2'' = Get (Query (tagsRequest [(''n'', ''2'')])) ''n''"
    by (simp add: tagsRequest_def Get_def)
  have q0l: "[] = Get (Query (tagsRequest [(''n'', ''abc'')])) ''last''"
    "[] = Get (Query (tagsRequest [(''n'', ''2'')])) ''last''"
    by (simp_all add: tagsRequest_def Get_def)
  have aabc: "Atoi ''abc'' = (0, Some (NumError ''Atoi'' ''abc'' ErrSyntax))"
    by (simp add: Atoi_def ParseInt_def ParseUint_def isDigit_def)
  have a2: "Atoi ''2'' = (2, None)"
    by (simp add: Atoi_def ParseInt_def ParseUint_def isDigit_def digitVal_def maxUint64_def)
  have l2: "mListTags memStores (db tagsWorld) ''acme/app'' 2 [] = Inr [''v1'', ''v2'']"
    by (simp add: memStores_def tagsWorld_def emptyWorld_def numeral_2_eq_2)
  have m2: "MarshalListTags exampleLib \<lparr>Name = ''acme/app'', Tags = [''v1'', ''v2'']\<rparr>
              = Inr tagsBody"
    by (simp add: exampleLib_def marshalStrings_def quoted_def tagsBody_def)
  have wr: "respWrite memStores tagsBody = None"
    by (simp add: memStores_def)
  have e: "calls tagsWorld = []" "Written (resp tagsWorld) = []"
    by (simp_all add: tagsWorld_def emptyWorld_def newResponse_def)
  have s: "Sprint_nat (length tagsBody) = ''38''"
    by (simp add: tagsBody_def Sprint_nat.simps)
  note t0 = handleTags_n [OF m tags_path [symmetric] len repo auth q0(1) q0(2),
      of exampleLib tagsWorld]
  note tabc = handleTags_n [OF m tags_path [symmetric] len repo auth qabc q0l(1),
      of exampleLib tagsWorld]
  note t2 = handleTags_n [OF m tags_path [symmetric] len repo auth q2 q0l(2),
      of exampleLib tagsWorld]
  from t0 e have A: "calls (snd (handleTags memStores exampleLib (tagsRequest []) tagsWorld))
     = [CallListTags ''acme/app'' 10000 []]"
    by simp
  from tabc aabc have B: "handleTags memStores exampleLib (tagsRequest [(''n'', ''abc'')]) tagsWorld
       = (Return (Some \<lparr>Status = 400, Code = ''BAD_REQUEST'',
                        Message = ''parsing n: ''
                          @ Error exampleLib (NumError ''Atoi'' ''abc'' ErrSyntax)\<rparr>), tagsWorld)"
    by blast
  from t2 a2 e have C: "calls (snd (handleTags memStores exampleLib (tagsRequest [(''n'', ''2'')])
                                      tagsWorld)) = [CallListTags ''acme/app'' 2 []]"
    by simp
  from t2 a2 l2 m2 wr
  have D: "fst (handleTags memStores exampleLib (tagsRequest [(''n'', ''2'')]) tagsWorld)
             = Return None
         \<and> Written (resp (snd (handleTags memStores exampleLib (tagsRequest [(''n'', ''2'')])
                            tagsWorld))) = Written (resp tagsWorld) @ tagsBody
         \<and> Header (resp (snd (handleTags memStores exampleLib (tagsRequest [(''n'', ''2'')])
                           tagsWorld))) ''Content-Length'' = Some (Sprint_nat (length tagsBody))"
    by blast
  from A B C D e s show ?thesis by simp
qed

text \<open>
  C8, as stated, fails: \<open>n=99999999999999999999\<close> fails integer parsing (out of range), no
  error is returned, and the store's List is called with \<open>n = 9223372036854775807\<close>, not 0:
  the handler keeps the value \<open>strconv.Atoi\<close> returns beside its error.
\<close>

theorem handleCatalog_out_of_range_counterexample:
  "Get (Query (catalogRequest [(''n'', ''99999999999999999999'')])) ''n''
     = ''99999999999999999999''
   \<and> Atoi ''99999999999999999999''
       = (9223372036854775807, Some (NumError ''Atoi'' ''99999999999999999999'' ErrRange))
   \<and> fst (handleCatalog memStores exampleLib
            (catalogRequest [(''n'', ''99999999999999999999'')]) emptyWorld) = None
   \<and> calls (snd (handleCatalog memStores exampleLib
            (catalogRequest [(''n'', ''99999999999999999999'')]) emptyWorld))
       = [CallList 9223372036854775807]"
proof -
  have a: "Atoi ''99999999999999999999''
       = (9223372036854775807, Some (NumError ''Atoi'' ''99999999999999999999'' ErrRange))"
    by (simp add: Atoi_def ParseInt_def ParseUint_def isDigit_def digitVal_def maxUint64_def)
  have g: "Get (Query (catalogRequest [(''n'', ''99999999999999999999'')])) ''n''
     = ''99999999999999999999''"
    by (simp add: catalogRequest_def Get_def)
  have m: "Method (catalogRequest [(''n'', ''99999999999999999999'')]) = ''GET''"
    by (simp add: catalogRequest_def)
  have h: "fst (handleCatalog memStores exampleLib
             (catalogRequest [(''n'', ''99999999999999999999'')]) emptyWorld) = None
          \<and> calls (snd (handleCatalog memStores exampleLib
            (catalogRequest [(''n'', ''99999999999999999999'')]) emptyWorld))
            = [CallList 9223372036854775807]"
    unfolding handleCatalog_def g m Let_def a
    by (simp add: memStores_def exampleLib_def emptyWorld_def newResponse_def logCall_def
        setHeader_def WriteHeader_def copyToResp_def)
  with a g show ?thesis by simp
qed

text \<open>
  C8, amended. A GET of the catalog, with \<open>ns\<close> the value \<open>Query().Get("n")\<close> yields: if
  \<open>ns\<close> is empty (absent) List is called with \<open>n = 10000\<close>; otherwise List is called with the
  value \<open>strconv.Atoi\<close> returns, its error ignored: the parsed integer, 0 after a syntax
  error, and the nearest bound of the 64-bit int after a range error. The parse error is
  never returned: when List, marshalling and writing succeed the handler returns no error.
\<close>

theorem handleCatalog_n:
  assumes "Method req = ''GET''" and "ns = Get (Query req) ''n''"
  shows "(ns = [] \<longrightarrow> calls (snd (handleCatalog C L req w)) = calls w @ [CallList 10000])
       \<and> (ns \<noteq> [] \<longrightarrow>
            calls (snd (handleCatalog C L req w)) = calls w @ [CallList (fst (Atoi ns))])
       \<and> (\<forall>f num. snd (Atoi ns) = Some (NumError f num ErrSyntax) \<longrightarrow> fst (Atoi ns) = 0)
       \<and> (\<forall>f num. snd (Atoi ns) = Some (NumError f num ErrRange) \<longrightarrow>
            fst (Atoi ns) = 2 ^ 63 - 1 \<or> fst (Atoi ns) = - (2 ^ 63))
       \<and> (\<forall>repos msg.
            mList C (db w) (if ns = [] then 10000 else fst (Atoi ns)) = Inr repos \<longrightarrow>
            MarshalCatalog L \<lparr>Repos = repos\<rparr> = Inr msg \<longrightarrow>
            respWrite C msg = None \<longrightarrow>
              fst (handleCatalog C L req w) = None
              \<and> Written (resp (snd (handleCatalog C L req w))) = Written (resp w) @ msg)"
proof -
  have a: "ns = [] \<Longrightarrow> calls (snd (handleCatalog C L req w)) = calls w @ [CallList 10000]"
    using assms
    by (auto simp: handleCatalog_def Let_def logCall_def setHeader_def WriteHeader_def
        copyToResp_def split: sum.splits option.splits)
  have b: "ns \<noteq> [] \<Longrightarrow>
            calls (snd (handleCatalog C L req w)) = calls w @ [CallList (fst (Atoi ns))]"
    using assms
    by (auto simp: handleCatalog_def Let_def logCall_def setHeader_def WriteHeader_def
        copyToResp_def split: sum.splits option.splits)
  have c: "fst (Atoi ns) = 0" if "snd (Atoi ns) = Some (NumError f num ErrSyntax)" for f num
    using that Atoi_syntax_zero [of ns "fst (Atoi ns)" f num] by (cases "Atoi ns") simp
  have d: "fst (Atoi ns) = 2 ^ 63 - 1 \<or> fst (Atoi ns) = - (2 ^ 63)"
    if "snd (Atoi ns) = Some (NumError f num ErrRange)" for f num
    using that Atoi_range_bound [of ns "fst (Atoi ns)" f num] by (cases "Atoi ns") simp
  have e: "fst (handleCatalog C L req w) = None
              \<and> Written (resp (snd (handleCatalog C L req w))) = Written (resp w) @ msg"
    if "mList C (db w) (if ns = [] then 10000 else fst (Atoi ns)) = Inr repos"
       "MarshalCatalog L \<lparr>Repos = repos\<rparr> = Inr msg" "respWrite C msg = None" for repos msg
    using assms that
    by (auto simp: handleCatalog_def Let_def logCall_def setHeader_def WriteHeader_def
        copyToResp_def split: option.splits)
  from a b c d e show ?thesis by blast
qed

theorem handleCatalog_n_witness:
  "calls (snd (handleCatalog memStores exampleLib (catalogRequest []) tagsWorld))
     = [CallList 10000]
   \<and> calls (snd (handleCatalog memStores exampleLib (catalogRequest [(''n'', ''abc'')]) tagsWorld))
       = [CallList 0]
   \<and> fst (handleCatalog memStores exampleLib (catalogRequest [(''n'', ''abc'')]) tagsWorld) = None"
proof -
  have m: "Method (catalogRequest q) = ''GET''" for q
    by (simp add: catalogRequest_def)
  have q0: "[] = Get (Query (catalogRequest [])) ''n''"
    by (simp add: catalogRequest_def Get_def)
  have qabc: "''abc'' = Get (Query (catalogRequest [(''n'', ''abc'')])) ''n''"
    by (simp add: catalogRequest_def Get_def)
  have aabc: "Atoi ''abc'' = (0, Some (NumError ''Atoi'' ''abc'' ErrSyntax))"
    by (simp add: Atoi_def ParseInt_def ParseUint_def isDigit_def)
  have e: "calls tagsWorld = []"
    by (simp add: tagsWorld_def emptyWorld_def)
  have l: "mList memStores (db tagsWorld) (if ''abc'' = [] then 10000 else fst (Atoi ''abc''))
             = Inr []"
    by (simp add: aabc memStores_def)
  have ma: "MarshalCatalog exampleLib \<lparr>Repos = []\<rparr> = Inr (''{'' @ quoted ''repositories'' @ '':[]}'')"
    by (simp add: exampleLib_def marshalStrings_def)
  have wr: "respWrite memStores bs = None" for bs
    by (simp add: memStores_def)
  from handleCatalog_n [OF m q0, of memStores exampleLib tagsWorld] e
  have A: "calls (snd (handleCatalog memStores exampleLib (catalogRequest []) tagsWorld))
     = [CallList 10000]"
    by simp
  from handleCatalog_n [OF m qabc, of memStores exampleLib tagsWorld] e aabc l ma wr
  have B: "calls (snd (handleCatalog memStores exampleLib (catalogRequest [(''n'', ''abc'')])
                         tagsWorld)) = [CallList 0]
   \<and> fst (handleCatalog memStores exampleLib (catalogRequest [(''n'', ''abc'')]) tagsWorld) = None"
    by simp
  from A B show ?thesis by simp
qed

section \<open>Referrers\<close>

subsection \<open>What the two decodings of a body give\<close>

lemma decodeSubjectField_skip:
  "list_all (\<lambda>kv. \<not> matchesField L ''subject'' (fst kv)) kvs
   \<Longrightarrow> decodeSubjectField L (kvs @ rest) s = decodeSubjectField L rest s"
  by (induction L kvs s rule: decodeSubjectField.induct) auto

lemma decodeDescriptorDigest_skip:
  "list_all (\<lambda>kv. findField L descriptorFields (fst kv) \<noteq> Some ''digest'') kvs
   \<Longrightarrow> decodeDescriptorDigest L (kvs @ rest) h = decodeDescriptorDigest L rest h"
  by (induction L kvs h rule: decodeDescriptorDigest.induct) auto

lemma decodeMediaTypeField_skip:
  "list_all (\<lambda>kv. \<not> matchesField L ''mediaType'' (fst kv)) kvs
   \<Longrightarrow> decodeMediaTypeField L (kvs @ rest) s = decodeMediaTypeField L rest s"
  by (induction L kvs s rule: decodeMediaTypeField.induct) auto

lemma decodeConfigField_skip:
  "list_all (\<lambda>kv. \<not> matchesField L ''config'' (fst kv)) kvs
   \<Longrightarrow> decodeConfigField L (kvs @ rest) s = decodeConfigField L rest s"
  by (induction L kvs s rule: decodeConfigField.induct) auto

text \<open>
  A body that is not JSON, or an object without a member bound to \<open>subject\<close>, leaves the
  pointer nil.
\<close>

lemma UnmarshalSubject_syntax_error:
  "ParseJSON L buf = Inl e \<Longrightarrow> UnmarshalSubject L buf = None"
  by (simp add: UnmarshalSubject_def)

lemma UnmarshalSubject_absent:
  assumes "ParseJSON L buf = Inr (JObject kvs)"
    and "list_all (\<lambda>kv. \<not> matchesField L ''subject'' (fst kv)) kvs"
  shows "UnmarshalSubject L buf = None"
  using assms decodeSubjectField_skip [of L kvs "[]" None]
  by (simp add: UnmarshalSubject_def)

text \<open>
  An object with one member bound to \<open>subject\<close>, itself an object with one member bound to
  \<open>digest\<close>, a string that parses as a hash: the subject's digest is that hash.
\<close>

lemma UnmarshalSubject_member:
  assumes "ParseJSON L buf = Inr (JObject (kvs1 @ [(k, JObject (ds1 @ [(k', JString s)] @ ds2))] @ kvs2))"
    and "matchesField L ''subject'' k"
    and "list_all (\<lambda>kv. \<not> matchesField L ''subject'' (fst kv)) kvs1"
    and "list_all (\<lambda>kv. \<not> matchesField L ''subject'' (fst kv)) kvs2"
    and "findField L descriptorFields k' = Some ''digest''"
    and "list_all (\<lambda>kv. findField L descriptorFields (fst kv) \<noteq> Some ''digest'') ds1"
    and "list_all (\<lambda>kv. findField L descriptorFields (fst kv) \<noteq> Some ''digest'') ds2"
    and "NewHash L s = Inr h"
  shows "UnmarshalSubject L buf = Some h"
proof -
  have d: "decodeDescriptorDigest L (ds1 @ [(k', JString s)] @ ds2) h0 = (None, h)" for h0
    using assms(5,7,8) decodeDescriptorDigest_skip [OF assms(6)]
      decodeDescriptorDigest_skip [OF assms(7), of "[]"]
    by (simp add: decodeHash_def)
  have "decodeSubjectField L (kvs1 @ [(k, JObject (ds1 @ [(k', JString s)] @ ds2))] @ kvs2) None
          = Some h"
    using assms(2) d decodeSubjectField_skip [OF assms(3)]
      decodeSubjectField_skip [OF assms(4), of "[]"]
    by simp
  with assms(1) show ?thesis
    by (simp add: UnmarshalSubject_def)
qed

text \<open>
  \<open>config.mediaType\<close>: empty for a body that is not JSON or has no member bound to \<open>config\<close>;
  the string of the one \<open>mediaType\<close> member of the one \<open>config\<close> object otherwise. A member of
  another type does not reset the field: a string decoded before it stays.
\<close>

lemma UnmarshalConfigMediaType_syntax_error:
  "ParseJSON L buf = Inl e \<Longrightarrow> UnmarshalConfigMediaType L buf = []"
  by (simp add: UnmarshalConfigMediaType_def)

lemma UnmarshalConfigMediaType_absent:
  assumes "ParseJSON L buf = Inr (JObject kvs)"
    and "list_all (\<lambda>kv. \<not> matchesField L ''config'' (fst kv)) kvs"
  shows "UnmarshalConfigMediaType L buf = []"
  using assms decodeConfigField_skip [of L kvs "[]" "[]"]
  by (simp add: UnmarshalConfigMediaType_def)

lemma UnmarshalConfigMediaType_member:
  assumes "ParseJSON L buf = Inr (JObject (kvs1 @ [(k, JObject (cs1 @ [(k', JString s)] @ cs2))] @ kvs2))"
    and "matchesField L ''config'' k"
    and "list_all (\<lambda>kv. \<not> matchesField L ''config'' (fst kv)) kvs1"
    and "list_all (\<lambda>kv. \<not> matchesField L ''config'' (fst kv)) kvs2"
    and "matchesField L ''mediaType'' k'"
    and "list_all (\<lambda>kv. \<not> matchesField L ''mediaType'' (fst kv)) cs1"
    and "list_all (\<lambda>kv. \<not> matchesField L ''mediaType'' (fst kv)) cs2"
  shows "UnmarshalConfigMediaType L buf = s"
proof -
  have c: "decodeMediaTypeField L (cs1 @ [(k', JString s)] @ cs2) s0 = s" for s0
    using assms(5) decodeMediaTypeField_skip [OF assms(6)]
      decodeMediaTypeField_skip [OF assms(7), of "[]"]
    by simp
  have "decodeConfigField L (kvs1 @ [(k, JObject (cs1 @ [(k', JString s)] @ cs2))] @ kvs2) [] = s"
    using assms(2) c decodeConfigField_skip [OF assms(3)]
      decodeConfigField_skip [OF assms(4), of "[]"]
    by simp
  with assms(1) show ?thesis
    by (simp add: UnmarshalConfigMediaType_def)
qed

lemma memberStrings_Cons:
  "memberStrings L name ((k, v) # kvs)
     = (case v of JString x \<Rightarrow> if matchesField L name k then [x] else [] | _ \<Rightarrow> [])
       @ memberStrings L name kvs"
  by (cases v) (simp_all add: memberStrings_def)

lemma configMediaTypes_Cons:
  "configMediaTypes L ((k, v) # kvs)
     = (case v of
          JObject cs \<Rightarrow> if matchesField L ''config'' k then memberStrings L ''mediaType'' cs else []
        | _ \<Rightarrow> [])
       @ configMediaTypes L kvs"
  by (cases v) (simp_all add: configMediaTypes_def memberObjects_def)

lemma decodeMediaTypeField_last:
  "decodeMediaTypeField L cs s = last (s # memberStrings L ''mediaType'' cs)"
proof (induction cs arbitrary: s)
  case Nil
  then show ?case by (simp add: memberStrings_def)
next
  case (Cons kv cs)
  obtain k v where kv: "kv = (k, v)" by (cases kv)
  show ?case
    unfolding kv by (cases v) (simp_all add: Cons.IH memberStrings_Cons)
qed

lemma decodeConfigField_last:
  "decodeConfigField L kvs s = last (s # configMediaTypes L kvs)"
proof (induction kvs arbitrary: s)
  case Nil
  then show ?case by (simp add: configMediaTypes_def memberObjects_def)
next
  case (Cons kv kvs)
  obtain k v where kv: "kv = (k, v)" by (cases kv)
  show ?case
    unfolding kv
    by (cases v) (simp_all add: Cons.IH configMediaTypes_Cons decodeMediaTypeField_last)
qed

lemma UnmarshalConfigMediaType_last:
  assumes "ParseJSON L buf = Inr (JObject kvs)"
  shows "UnmarshalConfigMediaType L buf
           = (if configMediaTypes L kvs = [] then [] else last (configMediaTypes L kvs))"
  using assms by (simp add: UnmarshalConfigMediaType_def decodeConfigField_last)

lemma UnmarshalConfigMediaType_type_error_keeps:
  assumes "ParseJSON L buf = Inr (JObject [(''config'', JObject [(''mediaType'', JString s),
                                                                (''mediaType'', JNumber n)])])"
  shows "UnmarshalConfigMediaType L buf = s"
  using assms by (simp add: UnmarshalConfigMediaType_def matchesField_def)

subsection \<open>The loop and the list of referrers\<close>

lemma referrersLoop_spec:
  assumes "list_all (\<lambda>d. storedBody C w0 repo d \<noteq> None) ds"
    and "db w = db w0" and "blobs w = blobs w0"
  shows "\<exists>w'. referrersLoop C L repo target ds ims w
                = (Inr (ims @ referrersSpec C L w0 repo target ds), w')
             \<and> db w' = db w \<and> blobs w' = blobs w \<and> resp w' = resp w"
  using assms
proof (induction ds arbitrary: ims w)
  case Nil
  then show ?case by (simp add: referrersSpec_def List.map_filter_def)
next
  case (Cons d rest)
  from Cons.prems(1) obtain m buf where sb: "storedBody C w0 repo d = Some (m, buf)"
    by auto
  then have g: "mGet C (db w0) repo (String d) = Inr m"
    and b: "bGet C (blobs w0) repo (Digest (Blob m)) False = Inr (Inr buf)"
    by (auto simp: storedBody_def split: sum.splits)
  let ?w2 = "logCall (CallBlobGet repo (Digest (Blob m)) False) (logCall (CallGet repo (String d)) w)"
  have w2: "db ?w2 = db w0" "blobs ?w2 = blobs w0" "resp ?w2 = resp w"
    using Cons.prems(2,3) by simp_all
  from Cons.prems(1) have rest: "list_all (\<lambda>d. storedBody C w0 repo d \<noteq> None) rest"
    by simp
  note IH = Cons.IH [OF rest w2(1) w2(2)]
  have step: "referrersLoop C L repo target (d # rest) ims w
      = referrersLoop C L repo target rest
          (ims @ (case referrerOf C L w0 repo target d of None \<Rightarrow> [] | Some x \<Rightarrow> [x])) ?w2"
    using g b Cons.prems(2,3) sb
    by (simp add: storeGet_def blobGet_def referrerOf_def split: option.splits)
  have spec: "referrersSpec C L w0 repo target (d # rest)
      = (case referrerOf C L w0 repo target d of None \<Rightarrow> [] | Some x \<Rightarrow> [x])
        @ referrersSpec C L w0 repo target rest"
    by (simp add: referrersSpec_def List.map_filter_def split: option.splits)
  from IH [of "ims @ (case referrerOf C L w0 repo target d of None \<Rightarrow> [] | Some x \<Rightarrow> [x])"]
  show ?case
    unfolding step spec using w2 Cons.prems(2,3) by simp
qed

lemma referrerOf_digest:
  "referrerOf C L w repo target d = Some x \<Longrightarrow> dDigest x = d"
  by (auto simp: referrerOf_def split: option.splits if_splits)

lemma referrersSpec_digests:
  "map dDigest (referrersSpec C L w repo target ds)
     = filter (\<lambda>d. referrerOf C L w repo target d \<noteq> None) ds"
proof (induction ds)
  case Nil
  then show ?case by (simp add: referrersSpec_def List.map_filter_def)
next
  case (Cons d rest)
  with referrerOf_digest [of C L w repo target d] show ?case
    by (auto simp: referrersSpec_def List.map_filter_def)
qed

lemma referrersSpec_members:
  assumes "x \<in> set (referrersSpec C L w repo target ds)"
  shows "referrerOf C L w repo target (dDigest x) = Some x \<and> dDigest x \<in> set ds"
proof -
  from assms obtain d where d: "d \<in> set ds" "referrerOf C L w repo target d = Some x"
    by (auto simp: referrersSpec_def List.map_filter_def)
  with referrerOf_digest [OF d(2)] show ?thesis by simp
qed

lemma referrerOf_stored:
  assumes "storedBody C w repo d = Some (m, buf)"
  shows "referrerOf C L w repo target d
           = (if \<exists>s. UnmarshalSubject L buf = Some s \<and> String s = target
              then Some \<lparr>dMediaType = ContentType m, dSize = int (length buf), dDigest = d,
                         dArtifactType = UnmarshalConfigMediaType L buf\<rparr>
              else None)"
  using assms by (auto simp: referrerOf_def split: option.splits)

lemma handleReferrers_blob_error:
  assumes "Method req = ''GET''"
    and "elem = tl (Split (Path req) (CHR ''/''))" and "3 \<le> length elem"
    and "target = last elem"
    and "repo = Join (take (length elem - 3) (drop 1 elem)) ''/''"
    and "AuthorizeReference C repo target ActionRead = None"
    and "NewHash L target = Inr h"
    and "mListDigests C (db w) repo = Inr (d # rest)"
    and "mGet C (db w) repo (String d) = Inr m"
    and "bGet C (blobs w) repo (Digest (Blob m)) False = Inl e"
  shows "fst (handleReferrers C L req w)
           = Return (Some \<lparr>Status = 404, Code = ''BAD_REQUEST'', Message = Error L e\<rparr>)"
  using assms
  by (simp add: handleReferrers_def Let_def storeGet_def blobGet_def StatusNotFound_def)

lemma referrers_path:
  "tl (Split (Path referrersRequest) (CHR ''/''))
     = [''v2'', ''acme'', ''app'', ''referrers'', String subjectDigest]"
  by (simp add: referrersRequest_def String_def subjectDigest_def sha_def)

lemma example_target:
  "NewHash exampleLib (String subjectDigest) = Inr subjectDigest"
  by (simp add: exampleLib_def tabulated_def String_def childDigest_def subjectDigest_def sha_def)

text \<open>
  C4, as stated, fails when a listed manifest's body cannot be read: the digest in the URL is
  valid, the repo is known (the store lists one manifest for it) and the request is
  authorized, but the blob store has no blob for the manifest, and the handler answers with
  the error of lines 286-291 (status 404, code \<open>BAD_REQUEST\<close>) instead of an image index.
\<close>

theorem handleReferrers_unreadable_body_counterexample:
  "NewHash exampleLib (String subjectDigest) = Inr subjectDigest
   \<and> AuthorizeReference memStores ''acme/app'' (String subjectDigest) ActionRead = None
   \<and> mListDigests memStores (db unreadableWorld) ''acme/app'' = Inr [digestPlain]
   \<and> fst (handleReferrers memStores exampleLib referrersRequest unreadableWorld)
       = Return (Some \<lparr>Status = 404, Code = ''BAD_REQUEST'', Message = ''blob not found''\<rparr>)"
proof -
  let ?elem = "[''v2'', ''acme'', ''app'', ''referrers'', String subjectDigest]"
  have 1: "Method referrersRequest = ''GET''"
    by (simp add: referrersRequest_def)
  have 3: "3 \<le> length ?elem"
    by simp
  have 4: "String subjectDigest = last ?elem"
    by simp
  have 5: "''acme/app'' = Join (take (length ?elem - 3) (drop 1 ?elem)) ''/''"
    by simp
  have 6: "AuthorizeReference memStores ''acme/app'' (String subjectDigest) ActionRead = None"
    by (simp add: memStores_def)
  have 8: "mListDigests memStores (db unreadableWorld) ''acme/app'' = Inr (digestPlain # [])"
    by (simp add: memStores_def unreadableWorld_def emptyWorld_def manifestPlain_def)
  have 9: "mGet memStores (db unreadableWorld) ''acme/app'' (String digestPlain) = Inr manifestPlain"
    by (simp add: memStores_def unreadableWorld_def emptyWorld_def)
  have 10: "bGet memStores (blobs unreadableWorld) ''acme/app'' (Digest (Blob manifestPlain)) False
              = Inl (ErrOther ''blob not found'')"
    by (simp add: memStores_def unreadableWorld_def emptyWorld_def)
  have 11: "Error exampleLib (ErrOther ''blob not found'') = ''blob not found''"
    by (simp add: exampleLib_def errorText_def)
  from handleReferrers_blob_error [OF 1 referrers_path [symmetric] 3 4 5 6 example_target 8 9 10]
    6 8 11 example_target
  show ?thesis by simp
qed

text \<open>
  C4, amended. A GET of the referrers of a valid digest \<open>target\<close> in a known repo, authorized,
  where every digest the store lists has a manifest record and a body that can be read, and
  the index is marshalled and written to the client: the response is 200 with Content-Type
  \<open>application/vnd.oci.image.index.v1+json\<close> and the marshalled index
  \<open>{schemaVersion: 2, mediaType: that type, manifests: referrersSpec ...}\<close>. The digests of its
  descriptors are, in listing order, the listed digests that refer to \<open>target\<close>, so each such
  manifest has exactly one descriptor when the store lists every digest once. A listed
  manifest refers to \<open>target\<close> when \<open>json.Unmarshal\<close> of its body, the error dropped, leaves a
  non-nil top-level \<open>subject\<close> whose digest prints as \<open>target\<close>; its descriptor is then
  \<open>{mediaType: the record's contentType, size: the body length, digest: the listed digest,
  artifactType: the config.mediaType that json.Unmarshal of the body, the error dropped,
  leaves}\<close>. A manifest whose body has no subject, or another one, has no descriptor, and
  every descriptor of the index is the descriptor of a listed manifest. As to the decoding: a
  body that is not JSON, or an object without a member bound to \<open>subject\<close>, leaves the subject
  nil; the \<open>config.mediaType\<close> left is the last string found under \<open>mediaType\<close> in a
  top-level \<open>config\<close> object, and empty when there is none (members of another type are
  passed over, their type error dropped).
\<close>

theorem handleReferrers_index:
  assumes "Method req = ''GET''"
    and "elem = tl (Split (Path req) (CHR ''/''))" and "3 \<le> length elem"
    and "target = last elem"
    and "repo = Join (take (length elem - 3) (drop 1 elem)) ''/''"
    and "AuthorizeReference C repo target ActionRead = None"
    and "NewHash L target = Inr h"
    and "mListDigests C (db w) repo = Inr ds"
    and "list_all (\<lambda>d. storedBody C w repo d \<noteq> None) ds"
    and "MarshalIndex L \<lparr>SchemaVersion = 2, iMediaType = OCIImageIndex,
                          Manifests = referrersSpec C L w repo target ds\<rparr> = Inr msg"
    and "respWrite C msg = None"
    and "StatusCode (resp w) = None"
  shows "fst (handleReferrers C L req w) = Return None
       \<and> Written (resp (snd (handleReferrers C L req w))) = Written (resp w) @ msg
       \<and> StatusCode (resp (snd (handleReferrers C L req w))) = Some 200
       \<and> Header (resp (snd (handleReferrers C L req w))) ''Content-Type'' = Some OCIImageIndex
       \<and> Header (resp (snd (handleReferrers C L req w))) ''Content-Length''
           = Some (Sprint_nat (length msg))
       \<and> OCIImageIndex = ''application/vnd.oci.image.index.v1+json''
       \<and> map dDigest (referrersSpec C L w repo target ds)
           = filter (\<lambda>d. referrerOf C L w repo target d \<noteq> None) ds
       \<and> (distinct ds \<longrightarrow> distinct (map dDigest (referrersSpec C L w repo target ds)))
       \<and> (\<forall>d\<in>set ds. \<forall>m buf. storedBody C w repo d = Some (m, buf) \<longrightarrow>
            referrerOf C L w repo target d
              = (if \<exists>s. UnmarshalSubject L buf = Some s \<and> String s = target
                 then Some \<lparr>dMediaType = ContentType m, dSize = int (length buf), dDigest = d,
                            dArtifactType = UnmarshalConfigMediaType L buf\<rparr>
                 else None))
       \<and> (\<forall>x\<in>set (referrersSpec C L w repo target ds).
            referrerOf C L w repo target (dDigest x) = Some x \<and> dDigest x \<in> set ds)
       \<and> (\<forall>buf e. ParseJSON L buf = Inl e \<longrightarrow> UnmarshalSubject L buf = None)
       \<and> (\<forall>buf kvs. ParseJSON L buf = Inr (JObject kvs)
              \<longrightarrow> list_all (\<lambda>kv. \<not> matchesField L ''subject'' (fst kv)) kvs
              \<longrightarrow> UnmarshalSubject L buf = None)
       \<and> (\<forall>buf kvs. ParseJSON L buf = Inr (JObject kvs)
              \<longrightarrow> UnmarshalConfigMediaType L buf
                    = (if configMediaTypes L kvs = [] then []
                       else last (configMediaTypes L kvs)))"
proof -
  let ?w1 = "logCall (CallListDigests repo) w"
  have w1: "db ?w1 = db w" "blobs ?w1 = blobs w" "resp ?w1 = resp w"
    by simp_all
  from referrersLoop_spec [OF assms(9) w1(1) w1(2), of L target "[]"]
  obtain w2 where loop: "referrersLoop C L repo target ds [] ?w1
                = (Inr (referrersSpec C L w repo target ds), w2)"
    and w2: "resp w2 = resp w"
    by (auto simp: w1)
  have "handleReferrers C L req w
      = (case copyToResp C msg
               (WriteHeader StatusOK
                 (setHeader ''Content-Type'' OCIImageIndex
                   (setHeader ''Content-Length'' (Sprint_nat (length msg)) w2))) of
           (Some e, w6) \<Rightarrow> (Return (Some (regErrInternal e)), w6)
         | (None, w6) \<Rightarrow> (Return None, w6))"
    using assms(1-8,10) loop
    by (simp add: handleReferrers_def Let_def)
  with assms(11,12) w2 have response:
    "fst (handleReferrers C L req w) = Return None
     \<and> Written (resp (snd (handleReferrers C L req w))) = Written (resp w) @ msg
     \<and> StatusCode (resp (snd (handleReferrers C L req w))) = Some 200
     \<and> Header (resp (snd (handleReferrers C L req w))) ''Content-Type'' = Some OCIImageIndex
     \<and> Header (resp (snd (handleReferrers C L req w))) ''Content-Length''
         = Some (Sprint_nat (length msg))
     \<and> OCIImageIndex = ''application/vnd.oci.image.index.v1+json''"
    by (simp add: copyToResp_def WriteHeader_def setHeader_def StatusOK_def OCIImageIndex_def)
  have digests: "map dDigest (referrersSpec C L w repo target ds)
                   = filter (\<lambda>d. referrerOf C L w repo target d \<noteq> None) ds"
    by (rule referrersSpec_digests)
  have once: "distinct ds \<longrightarrow> distinct (map dDigest (referrersSpec C L w repo target ds))"
    by (simp add: digests)
  have shape: "\<forall>d\<in>set ds. \<forall>m buf. storedBody C w repo d = Some (m, buf) \<longrightarrow>
            referrerOf C L w repo target d
              = (if \<exists>s. UnmarshalSubject L buf = Some s \<and> String s = target
                 then Some \<lparr>dMediaType = ContentType m, dSize = int (length buf), dDigest = d,
                            dArtifactType = UnmarshalConfigMediaType L buf\<rparr>
                 else None)"
    using referrerOf_stored [of C w repo _ _ _ L target] by blast
  have members: "\<forall>x\<in>set (referrersSpec C L w repo target ds).
            referrerOf C L w repo target (dDigest x) = Some x \<and> dDigest x \<in> set ds"
    using referrersSpec_members [of _ C L w repo target ds] by blast
  have unparsed: "\<forall>buf e. ParseJSON L buf = Inl e \<longrightarrow> UnmarshalSubject L buf = None"
    using UnmarshalSubject_syntax_error by blast
  have absent: "\<forall>buf kvs. ParseJSON L buf = Inr (JObject kvs)
              \<longrightarrow> list_all (\<lambda>kv. \<not> matchesField L ''subject'' (fst kv)) kvs
              \<longrightarrow> UnmarshalSubject L buf = None"
    using UnmarshalSubject_absent by blast
  have config: "\<forall>buf kvs. ParseJSON L buf = Inr (JObject kvs)
              \<longrightarrow> UnmarshalConfigMediaType L buf
                    = (if configMediaTypes L kvs = [] then []
                       else last (configMediaTypes L kvs))"
    using UnmarshalConfigMediaType_last by blast
  from response digests once shape members unparsed absent config show ?thesis
    by (intro conjI) simp_all
qed

lemma example_stored_referrer:
  "storedBody memStores referrersWorld ''acme/app'' digestReferrer
     = Some (manifestReferrer, bodyReferrer)"
  by (simp add: storedBody_def memStores_def referrersWorld_def emptyWorld_def
      manifestReferrer_def)

lemma example_stored_plain:
  "storedBody memStores referrersWorld ''acme/app'' digestPlain = Some (manifestPlain, bodyPlain)"
  by (simp add: storedBody_def memStores_def referrersWorld_def emptyWorld_def
      manifestPlain_def manifestReferrer_def String_def digestPlain_def digestReferrer_def sha_def)

lemma example_parse_referrer:
  "ParseJSON exampleLib bodyReferrer
     = Inr (JObject ([(''schemaVersion'', JNumber ''2''),
                      (''config'', JObject ([] @ [(''mediaType'',
                                                   JString ''application/vnd.example.sbom'')] @ []))]
                     @ [(''subject'', JObject ([] @ [(''digest'', JString (String subjectDigest))] @ []))]
                     @ []))"
  by (simp add: exampleLib_def tabulated_def bodyPlain_def bodyEmptyBlobs_def bodyWithBlobs_def
      bodyNotJSON_def bodyReferrer_def)

lemma example_parse_plain:
  "ParseJSON exampleLib bodyPlain = Inr (JObject [(''schemaVersion'', JNumber ''2'')])"
  by (simp add: exampleLib_def tabulated_def bodyPlain_def bodyNotJSON_def)

lemma example_subject_referrer: "UnmarshalSubject exampleLib bodyReferrer = Some subjectDigest"
proof -
  have fold: "matchesField exampleLib name key = (key = name)" for name key
    by (auto simp: matchesField_def exampleLib_def)
  have field: "findField exampleLib descriptorFields ''digest'' = Some ''digest''"
    by (simp add: findField_def descriptorFields_def)
  show ?thesis
    by (rule UnmarshalSubject_member [OF example_parse_referrer _ _ _ field _ _ example_target])
      (simp_all add: fold)
qed

lemma example_subject_plain: "UnmarshalSubject exampleLib bodyPlain = None"
  by (rule UnmarshalSubject_absent [OF example_parse_plain])
    (simp add: matchesField_def exampleLib_def)

lemma example_config_referrer:
  "UnmarshalConfigMediaType exampleLib bodyReferrer = ''application/vnd.example.sbom''"
proof -
  have fold: "matchesField exampleLib name key = (key = name)" for name key
    by (auto simp: matchesField_def exampleLib_def)
  from example_parse_referrer
  have "ParseJSON exampleLib bodyReferrer
     = Inr (JObject ([(''schemaVersion'', JNumber ''2'')]
                     @ [(''config'', JObject ([] @ [(''mediaType'',
                                                    JString ''application/vnd.example.sbom'')] @ []))]
                     @ [(''subject'', JObject [(''digest'', JString (String subjectDigest))])]))"
    by simp
  then show ?thesis
    by (rule UnmarshalConfigMediaType_member) (simp_all add: fold)
qed

lemma example_referrerOf:
  "referrerOf memStores exampleLib referrersWorld ''acme/app'' (String subjectDigest) digestReferrer
     = Some referrerDescriptor"
  "referrerOf memStores exampleLib referrersWorld ''acme/app'' (String subjectDigest) digestPlain
     = None"
proof -
  have len: "length bodyReferrer = 168"
    by (simp add: bodyReferrer_def)
  show "referrerOf memStores exampleLib referrersWorld ''acme/app'' (String subjectDigest)
          digestReferrer = Some referrerDescriptor"
    by (simp add: referrerOf_def example_stored_referrer example_subject_referrer
        example_config_referrer manifestReferrer_def referrerDescriptor_def len)
  show "referrerOf memStores exampleLib referrersWorld ''acme/app'' (String subjectDigest)
          digestPlain = None"
    by (simp add: referrerOf_def example_stored_plain example_subject_plain)
qed

theorem handleReferrers_index_witness:
  "fst (handleReferrers memStores exampleLib referrersRequest referrersWorld) = Return None
   \<and> Written (resp (snd (handleReferrers memStores exampleLib referrersRequest referrersWorld)))
       = marshalIndex \<lparr>SchemaVersion = 2, iMediaType = OCIImageIndex,
                        Manifests = [referrerDescriptor]\<rparr>
   \<and> StatusCode (resp (snd (handleReferrers memStores exampleLib referrersRequest referrersWorld)))
       = Some 200
   \<and> map dDigest (referrersSpec memStores exampleLib referrersWorld ''acme/app''
                     (String subjectDigest) [digestReferrer, digestPlain]) = [digestReferrer]
   \<and> distinct [digestReferrer, digestPlain]
   \<and> distinct (map dDigest (referrersSpec memStores exampleLib referrersWorld ''acme/app''
                     (String subjectDigest) [digestReferrer, digestPlain]))
   \<and> storedBody memStores referrersWorld ''acme/app'' digestReferrer
       = Some (manifestReferrer, bodyReferrer)
   \<and> UnmarshalSubject exampleLib bodyReferrer = Some subjectDigest
   \<and> referrerOf memStores exampleLib referrersWorld ''acme/app'' (String subjectDigest)
         digestReferrer
       = Some \<lparr>dMediaType = ContentType manifestReferrer, dSize = int (length bodyReferrer),
               dDigest = digestReferrer,
               dArtifactType = UnmarshalConfigMediaType exampleLib bodyReferrer\<rparr>
   \<and> referrerOf memStores exampleLib referrersWorld ''acme/app'' (String subjectDigest)
         digestPlain = None
   \<and> ParseJSON exampleLib bodyNotJSON = Inl (ErrOther ''invalid character in literal null'')
   \<and> UnmarshalSubject exampleLib bodyNotJSON = None
   \<and> ParseJSON exampleLib bodyPlain = Inr (JObject [(''schemaVersion'', JNumber ''2'')])
   \<and> UnmarshalSubject exampleLib bodyPlain = None
   \<and> UnmarshalConfigMediaType exampleLib bodyPlain = []
   \<and> UnmarshalConfigMediaType exampleLib bodyReferrer = ''application/vnd.example.sbom''"
proof -
  let ?elem = "[''v2'', ''acme'', ''app'', ''referrers'', String subjectDigest]"
  have 1: "Method referrersRequest = ''GET''"
    by (simp add: referrersRequest_def)
  have 3: "3 \<le> length ?elem"
    by simp
  have 4: "String subjectDigest = last ?elem"
    by simp
  have 5: "''acme/app'' = Join (take (length ?elem - 3) (drop 1 ?elem)) ''/''"
    by simp
  have 6: "AuthorizeReference memStores ''acme/app'' (String subjectDigest) ActionRead = None"
    by (simp add: memStores_def)
  have 8: "mListDigests memStores (db referrersWorld) ''acme/app''
             = Inr [digestReferrer, digestPlain]"
    by (simp add: memStores_def referrersWorld_def emptyWorld_def manifestReferrer_def
        manifestPlain_def digestReferrer_def digestPlain_def sha_def)
  have 9: "list_all (\<lambda>d. storedBody memStores referrersWorld ''acme/app'' d \<noteq> None)
             [digestReferrer, digestPlain]"
    by (simp add: example_stored_referrer example_stored_plain)
  have spec: "referrersSpec memStores exampleLib referrersWorld ''acme/app''
                (String subjectDigest) [digestReferrer, digestPlain] = [referrerDescriptor]"
    by (simp add: referrersSpec_def List.map_filter_def example_referrerOf)
  have mi: "MarshalIndex exampleLib im = Inr (marshalIndex im)" for im
    by (simp add: exampleLib_def)
  have 10: "MarshalIndex exampleLib
              \<lparr>SchemaVersion = 2, iMediaType = OCIImageIndex,
               Manifests = referrersSpec memStores exampleLib referrersWorld ''acme/app''
                             (String subjectDigest) [digestReferrer, digestPlain]\<rparr>
             = Inr (marshalIndex \<lparr>SchemaVersion = 2, iMediaType = OCIImageIndex,
                                  Manifests = [referrerDescriptor]\<rparr>)"
    by (simp add: spec mi)
  have 11: "respWrite memStores bs = None" for bs
    by (simp add: memStores_def)
  have 12: "StatusCode (resp referrersWorld) = None" "Written (resp referrersWorld) = []"
    by (simp_all add: referrersWorld_def emptyWorld_def newResponse_def)
  have 13: "distinct [digestReferrer, digestPlain]"
    by (simp add: digestReferrer_def digestPlain_def sha_def)
  note inst = handleReferrers_index [OF 1 referrers_path [symmetric] 3 4 5 6 example_target 8 9 10
      11 12(1)]
  from inst have a: "fst (handleReferrers memStores exampleLib referrersRequest referrersWorld)
        = Return None"
    and b: "Written (resp (snd (handleReferrers memStores exampleLib referrersRequest
                                  referrersWorld)))
        = marshalIndex \<lparr>SchemaVersion = 2, iMediaType = OCIImageIndex,
                         Manifests = [referrerDescriptor]\<rparr>"
    and c: "StatusCode (resp (snd (handleReferrers memStores exampleLib referrersRequest
                                     referrersWorld))) = Some 200"
    using 12(2) by simp_all
  from inst have d: "map dDigest (referrersSpec memStores exampleLib referrersWorld ''acme/app''
                     (String subjectDigest) [digestReferrer, digestPlain]) = [digestReferrer]"
    using example_referrerOf by simp
  from inst 13 have e: "distinct (map dDigest (referrersSpec memStores exampleLib referrersWorld
                     ''acme/app'' (String subjectDigest) [digestReferrer, digestPlain]))"
    by blast
  from inst have shape: "\<forall>d\<in>set [digestReferrer, digestPlain]. \<forall>m buf.
          storedBody memStores referrersWorld ''acme/app'' d = Some (m, buf) \<longrightarrow>
            referrerOf memStores exampleLib referrersWorld ''acme/app'' (String subjectDigest) d
              = (if \<exists>s. UnmarshalSubject exampleLib buf = Some s
                        \<and> String s = String subjectDigest
                 then Some \<lparr>dMediaType = ContentType m, dSize = int (length buf), dDigest = d,
                            dArtifactType = UnmarshalConfigMediaType exampleLib buf\<rparr>
                 else None)"
    by blast
  from shape example_stored_referrer example_subject_referrer
  have f: "referrerOf memStores exampleLib referrersWorld ''acme/app'' (String subjectDigest)
             digestReferrer
           = Some \<lparr>dMediaType = ContentType manifestReferrer, dSize = int (length bodyReferrer),
                   dDigest = digestReferrer,
                   dArtifactType = UnmarshalConfigMediaType exampleLib bodyReferrer\<rparr>"
    by simp
  from shape example_stored_plain example_subject_plain
  have g: "referrerOf memStores exampleLib referrersWorld ''acme/app'' (String subjectDigest)
             digestPlain = None"
    by simp
  have fold: "matchesField exampleLib name key = (key = name)" for name key
    by (auto simp: matchesField_def exampleLib_def)
  have notjson: "ParseJSON exampleLib bodyNotJSON
                   = Inl (ErrOther ''invalid character in literal null'')"
    by (simp add: exampleLib_def)
  from inst notjson have h: "UnmarshalSubject exampleLib bodyNotJSON = None"
    by blast
  have nosubject: "list_all (\<lambda>kv. \<not> matchesField exampleLib ''subject'' (fst kv))
                     [(''schemaVersion'', JNumber ''2'')]"
    by (simp add: fold)
  from inst example_parse_plain nosubject have i: "UnmarshalSubject exampleLib bodyPlain = None"
    by blast
  from inst have config: "\<forall>buf kvs. ParseJSON exampleLib buf = Inr (JObject kvs)
              \<longrightarrow> UnmarshalConfigMediaType exampleLib buf
                    = (if configMediaTypes exampleLib kvs = [] then []
                       else last (configMediaTypes exampleLib kvs))"
    by blast
  from config example_parse_plain have j: "UnmarshalConfigMediaType exampleLib bodyPlain = []"
    by (simp add: configMediaTypes_def memberObjects_def fold)
  from config example_parse_referrer
  have k: "UnmarshalConfigMediaType exampleLib bodyReferrer = ''application/vnd.example.sbom''"
    by (simp add: configMediaTypes_def memberObjects_def memberStrings_def fold)
  from a b c d e f g h i j k 13 example_stored_referrer example_subject_referrer notjson
    example_parse_plain
  show ?thesis
    by (intro conjI)
qed

section \<open>PUT then GET\<close>

lemma handleGet_success:
  assumes "mGet C (db w) repo reference = Inr m"
    and "bGet C (blobs w) repo (Digest (Blob m)) True = Inr (Inr buf)"
    and "respWrite C buf = None"
    and "StatusCode (resp w) = None"
  shows "fst (handleGet C L req repo reference w) = None
       \<and> Written (resp (snd (handleGet C L req repo reference w))) = Written (resp w) @ buf
       \<and> StatusCode (resp (snd (handleGet C L req repo reference w))) = Some 200
       \<and> Header (resp (snd (handleGet C L req repo reference w))) ''Docker-Content-Digest''
           = Some (String (Digest (Blob m)))
       \<and> Header (resp (snd (handleGet C L req repo reference w))) ''Content-Type''
           = Some (ContentType m)
       \<and> Header (resp (snd (handleGet C L req repo reference w))) ''Content-Length''
           = Some (Sprint_nat (length buf))"
  using assms
  by (simp add: handleGet_def storeGet_def blobGet_def Let_def setHeader_def WriteHeader_def
      copyToResp_def auditPull_def logCall_def StatusOK_def split: option.splits)

lemma handleGet_redirect:
  assumes "mGet C (db w) repo reference = Inr m"
    and "bGet C (blobs w) repo (Digest (Blob m)) True = Inl e"
    and "errors_As_RedirectError e = Some (loc, code)"
  shows "fst (handleGet C L req repo reference w) = None
       \<and> resp (snd (handleGet C L req repo reference w)) = Redirect L (resp w) req loc code"
  using assms
  by (simp add: handleGet_def storeGet_def blobGet_def Let_def auditPull_def logCall_def
      split: option.splits)

lemma memStores_store_law:
  "\<forall>d r reference mf deps d'. mPut (memStores\<lparr>bGet := g\<rparr>) d r reference mf deps = (None, d') \<longrightarrow>
     mGet (memStores\<lparr>bGet := g\<rparr>) d' r reference = Inr mf
     \<and> (\<forall>other. other \<noteq> reference \<longrightarrow>
           mGet (memStores\<lparr>bGet := g\<rparr>) d' r other = mGet (memStores\<lparr>bGet := g\<rparr>) d r other)"
  by (auto simp: memStores_def)

lemma memStores_blob_law:
  "\<forall>put b r h ct bs b'. bPut memStores = Some put \<longrightarrow> put b r h ct bs = (None, b') \<longrightarrow>
     bGet memStores b' r h True = Inr (Inr bs)
     \<or> (\<exists>e. bGet memStores b' r h True = Inl e \<and> errors_As_RedirectError e \<noteq> None)"
  by (auto simp: memStores_def memPut_def)

lemma example_pushed:
  "handlePut (memStores\<lparr>bGet := g\<rparr>) exampleLib
     (manifestRequest ''PUT'' ''application/vnd.example+json'' (Inr bodyPlain))
     ''acme/app'' ''v1'' emptyWorld = (None, pushedWorld)"
proof -
  have len: "int (length bodyPlain) = 19"
    by (simp add: bodyPlain_def)
  show ?thesis
    unfolding example_put [OF example_sha_plain example_check_plain]
    by (simp add: pushedWorld_def manifestPlain_def len)
qed

lemma pushedWorld_stores:
  "db pushedWorld = [((''acme/app'', ''v1''), manifestPlain),
                     ((''acme/app'', String digestPlain), manifestPlain)]"
  "blobs pushedWorld = [((''acme/app'', digestPlain), (''application/vnd.example+json'', bodyPlain))]"
  by (simp_all add: pushedWorld_def)

text \<open>
  C1, as stated, fails when the blob store answers Get with a redirect directive: the PUT
  succeeds, and the GET by the tag answers 307 with a \<open>Location\<close>, without the bytes of the
  body and without a \<open>Docker-Content-Digest\<close> header.
\<close>

theorem put_then_get_redirect_counterexample:
  "handlePut redirectStores exampleLib
     (manifestRequest ''PUT'' ''application/vnd.example+json'' (Inr bodyPlain))
     ''acme/app'' ''v1'' emptyWorld = (None, pushedWorld)
   \<and> fst (handleGet redirectStores exampleLib (manifestRequest ''GET'' [] (Inr []))
            ''acme/app'' ''v1'' (pushedWorld\<lparr>resp := newResponse\<rparr>)) = None
   \<and> StatusCode (resp (snd (handleGet redirectStores exampleLib
            (manifestRequest ''GET'' [] (Inr [])) ''acme/app'' ''v1''
            (pushedWorld\<lparr>resp := newResponse\<rparr>)))) = Some 307
   \<and> Header (resp (snd (handleGet redirectStores exampleLib
            (manifestRequest ''GET'' [] (Inr [])) ''acme/app'' ''v1''
            (pushedWorld\<lparr>resp := newResponse\<rparr>)))) ''Docker-Content-Digest'' = None
   \<and> Written (resp (snd (handleGet redirectStores exampleLib
            (manifestRequest ''GET'' [] (Inr [])) ''acme/app'' ''v1''
            (pushedWorld\<lparr>resp := newResponse\<rparr>)))) \<noteq> bodyPlain"
proof -
  let ?wg = "pushedWorld\<lparr>resp := newResponse\<rparr>"
  let ?greq = "manifestRequest ''GET'' [] (Inr [])"
  have put: "handlePut redirectStores exampleLib
     (manifestRequest ''PUT'' ''application/vnd.example+json'' (Inr bodyPlain))
     ''acme/app'' ''v1'' emptyWorld = (None, pushedWorld)"
    unfolding redirectStores_def by (rule example_pushed)
  have 1: "mGet redirectStores (db ?wg) ''acme/app'' ''v1'' = Inr manifestPlain"
    by (simp add: redirectStores_def memStores_def pushedWorld_stores)
  have 2: "bGet redirectStores (blobs ?wg) ''acme/app'' (Digest (Blob manifestPlain)) True
             = Inl (RedirectError (''https://blobs.example/'' @ String digestPlain) 307)"
    by (simp add: redirectStores_def manifestPlain_def)
  have 3: "errors_As_RedirectError
             (RedirectError (''https://blobs.example/'' @ String digestPlain) 307)
             = Some (''https://blobs.example/'' @ String digestPlain, 307)"
    by simp
  have r: "resp ?wg = newResponse"
    by simp
  have red: "Redirect exampleLib newResponse ?greq (''https://blobs.example/'' @ String digestPlain) 307
      = \<lparr>Header = [''Location'' \<mapsto> ''https://blobs.example/'' @ String digestPlain,
                   ''Content-Type'' \<mapsto> ''text/html; charset=utf-8''],
          StatusCode = Some 307,
          Written = ''<a href='' @ quoted (''https://blobs.example/'' @ String digestPlain)
                      @ ''>Temporary Redirect</a>.'' @ [CHR 0x0A, CHR 0x0A]\<rparr>"
    by (simp add: exampleLib_def exampleRedirect_def newResponse_def manifestRequest_def
        StatusText_def Let_def)
  from handleGet_redirect [OF 1 2 3, of exampleLib ?greq]
  have g: "fst (handleGet redirectStores exampleLib ?greq ''acme/app'' ''v1'' ?wg) = None"
    and rs: "resp (snd (handleGet redirectStores exampleLib ?greq ''acme/app'' ''v1'' ?wg))
               = Redirect exampleLib newResponse ?greq
                   (''https://blobs.example/'' @ String digestPlain) 307"
    by (simp_all only: r)
  show ?thesis
    unfolding rs red using put g by (simp add: bodyPlain_def)
qed

text \<open>
  C1, amended. After a successful PUT of body \<open>B\<close>, with a manifest store that returns what was
  put, a blob store that after a Put answers Get either with the stored bytes or with a
  redirect directive, and no change to the stores in between: the manifest record is recorded
  under both \<open>sha256(B)\<close> and the target by two Puts inside one transaction; a later GET by the
  target or by \<open>sha256(B)\<close> succeeds; when the blob store returns the bytes, the GET writes
  bytes equal to \<open>B\<close> with status 200 and \<open>Docker-Content-Digest = sha256(B)\<close>; when it
  returns a redirect directive, the GET answers with \<open>http.Redirect\<close> to that location and
  code instead.
\<close>

theorem put_then_get_round_trip:
  assumes "handlePut C L req repo target w = (None, w')"
    and "Body req = Inr B"
    and "\<forall>d r reference mf deps d'. mPut C d r reference mf deps = (None, d') \<longrightarrow>
           mGet C d' r reference = Inr mf
           \<and> (\<forall>other. other \<noteq> reference \<longrightarrow> mGet C d' r other = mGet C d r other)"
    and "\<forall>put b r h ct bs b'. bPut C = Some put \<longrightarrow> put b r h ct bs = (None, b') \<longrightarrow>
           bGet C b' r h True = Inr (Inr bs)
           \<or> (\<exists>e. bGet C b' r h True = Inl e \<and> errors_As_RedirectError e \<noteq> None)"
    and "respWrite C B = None"
    and "db wg = db w'" and "blobs wg = blobs w'" and "StatusCode (resp wg) = None"
  shows "\<exists>d deps pre. SHA256 L B = Inr d
         \<and> mGet C (db w') repo (String d) = Inr (putManifest req B d)
         \<and> mGet C (db w') repo target = Inr (putManifest req B d)
         \<and> calls w' = pre @ [TxBegin,
                              CallPut repo (String d) (putManifest req B d) deps,
                              CallPut repo target (putManifest req B d) deps,
                              TxCommit]
         \<and> (\<forall>reference greq. reference = target \<or> reference = String d \<longrightarrow>
               fst (handleGet C L greq repo reference wg) = None
             \<and> (bGet C (blobs wg) repo d True = Inr (Inr B) \<longrightarrow>
                  Written (resp (snd (handleGet C L greq repo reference wg)))
                    = Written (resp wg) @ B
                  \<and> StatusCode (resp (snd (handleGet C L greq repo reference wg))) = Some 200
                  \<and> Header (resp (snd (handleGet C L greq repo reference wg)))
                      ''Docker-Content-Digest'' = Some (String d))
             \<and> (\<forall>e loc code. bGet C (blobs wg) repo d True = Inl e \<longrightarrow>
                  errors_As_RedirectError e = Some (loc, code) \<longrightarrow>
                  resp (snd (handleGet C L greq repo reference wg))
                    = Redirect L (resp wg) greq loc code))"
proof -
  from handlePut_None [OF assms(1)] assms(2)
  obtain d deps w1 put b' d1 d2 where
    h: "Body req = Inr B" "SHA256 L B = Inr d"
       "collectDeps C L repo (Get (ReqHeader req) ''Content-Type'') B w = (Inr deps, w1)"
       "checkIncompatibleManifest L B = None"
       "bPut C = Some put"
       "put (blobs w1) repo d (Get (ReqHeader req) ''Content-Type'') B = (None, b')"
       "mPut C (db w1) repo (String d) (putManifest req B d) deps = (None, d1)"
       "mPut C d1 repo target (putManifest req B d) deps = (None, d2)"
    by auto
  let ?mf = "putManifest req B d"
  from assms(1) have w': "w' = snd (handlePut C L req repo target w)"
    by simp
  have dbw: "db w' = d2" and blw: "blobs w' = b'"
    and cw: "calls w' = (calls w1 @ [CallBlobPut repo d (Get (ReqHeader req) ''Content-Type'') B])
                         @ [TxBegin, CallPut repo (String d) ?mf deps,
                            CallPut repo target ?mf deps, TxCommit]"
    unfolding w' handlePut_success [OF h]
    by (simp_all add: WriteHeader_def setHeader_def split: option.splits)
  from assms(3) h(7) have g1: "mGet C d1 repo (String d) = Inr ?mf"
    by blast
  from assms(3) h(8) have g2: "mGet C d2 repo target = Inr ?mf"
    and keep: "\<And>other. other \<noteq> target \<Longrightarrow> mGet C d2 repo other = mGet C d1 repo other"
    by blast+
  have g3: "mGet C d2 repo (String d) = Inr ?mf"
    using g1 g2 keep by (cases "String d = target") auto
  from assms(4) h(5,6)
  have bg: "bGet C b' repo d True = Inr (Inr B)
            \<or> (\<exists>e. bGet C b' repo d True = Inl e \<and> errors_As_RedirectError e \<noteq> None)"
    by blast
  have dg: "Digest (Blob ?mf) = d"
    by (simp add: putManifest_def)
  have bw: "blobs wg = b'"
    by (simp add: assms(7) blw)
  have get: "fst (handleGet C L greq repo reference wg) = None
             \<and> (bGet C (blobs wg) repo d True = Inr (Inr B) \<longrightarrow>
                  Written (resp (snd (handleGet C L greq repo reference wg)))
                    = Written (resp wg) @ B
                  \<and> StatusCode (resp (snd (handleGet C L greq repo reference wg))) = Some 200
                  \<and> Header (resp (snd (handleGet C L greq repo reference wg)))
                      ''Docker-Content-Digest'' = Some (String d))
             \<and> (\<forall>e loc code. bGet C (blobs wg) repo d True = Inl e \<longrightarrow>
                  errors_As_RedirectError e = Some (loc, code) \<longrightarrow>
                  resp (snd (handleGet C L greq repo reference wg))
                    = Redirect L (resp wg) greq loc code)"
    if "reference = target \<or> reference = String d" for reference greq
  proof -
    from that g2 g3 have m: "mGet C (db wg) repo reference = Inr ?mf"
      by (auto simp: assms(6) dbw)
    have bytes: "Written (resp (snd (handleGet C L greq repo reference wg)))
                    = Written (resp wg) @ B
                  \<and> StatusCode (resp (snd (handleGet C L greq repo reference wg))) = Some 200
                  \<and> Header (resp (snd (handleGet C L greq repo reference wg)))
                      ''Docker-Content-Digest'' = Some (String d)
                  \<and> fst (handleGet C L greq repo reference wg) = None"
      if "bGet C (blobs wg) repo d True = Inr (Inr B)"
      using handleGet_success [of C wg repo reference ?mf B L greq] m that assms(5,8) dg
      by simp
    have redir: "resp (snd (handleGet C L greq repo reference wg))
                    = Redirect L (resp wg) greq loc code
                 \<and> fst (handleGet C L greq repo reference wg) = None"
      if "bGet C (blobs wg) repo d True = Inl e" "errors_As_RedirectError e = Some (loc, code)"
      for e loc code
      using handleGet_redirect [of C wg repo reference ?mf e loc code L greq] m that dg
      by simp
    from bg bw have "fst (handleGet C L greq repo reference wg) = None"
      using bytes redir by auto
    with bytes redir show ?thesis by blast
  qed
  from h(2) g2 g3 cw get show ?thesis
    unfolding dbw by blast
qed

theorem put_then_get_round_trip_witness:
  "SHA256 exampleLib bodyPlain = Inr digestPlain
   \<and> fst (handleGet memStores exampleLib (manifestRequest ''GET'' [] (Inr [])) ''acme/app'' ''v1''
            (pushedWorld\<lparr>resp := newResponse\<rparr>)) = None
   \<and> Written (resp (snd (handleGet memStores exampleLib (manifestRequest ''GET'' [] (Inr []))
                            ''acme/app'' ''v1'' (pushedWorld\<lparr>resp := newResponse\<rparr>)))) = bodyPlain
   \<and> Header (resp (snd (handleGet memStores exampleLib (manifestRequest ''GET'' [] (Inr []))
                           ''acme/app'' ''v1'' (pushedWorld\<lparr>resp := newResponse\<rparr>))))
       ''Docker-Content-Digest'' = Some (String digestPlain)
   \<and> fst (handleGet memStores exampleLib (manifestRequest ''GET'' [] (Inr [])) ''acme/app''
            (String digestPlain) (pushedWorld\<lparr>resp := newResponse\<rparr>)) = None
   \<and> Written (resp (snd (handleGet memStores exampleLib (manifestRequest ''GET'' [] (Inr []))
                            ''acme/app'' (String digestPlain)
                            (pushedWorld\<lparr>resp := newResponse\<rparr>)))) = bodyPlain
   \<and> Header (resp (snd (handleGet memStores exampleLib (manifestRequest ''GET'' [] (Inr []))
                           ''acme/app'' (String digestPlain)
                           (pushedWorld\<lparr>resp := newResponse\<rparr>))))
       ''Docker-Content-Digest'' = Some (String digestPlain)"
proof -
  let ?req = "manifestRequest ''PUT'' ''application/vnd.example+json'' (Inr bodyPlain)"
  let ?wg = "pushedWorld\<lparr>resp := newResponse\<rparr>"
  have 1: "handlePut memStores exampleLib ?req ''acme/app'' ''v1'' emptyWorld = (None, pushedWorld)"
    using example_pushed [of "bGet memStores"] by simp
  have 2: "Body ?req = Inr bodyPlain"
    by (simp add: manifestRequest_def)
  have 3: "\<forall>d r reference mf deps d'. mPut memStores d r reference mf deps = (None, d') \<longrightarrow>
     mGet memStores d' r reference = Inr mf
     \<and> (\<forall>other. other \<noteq> reference \<longrightarrow> mGet memStores d' r other = mGet memStores d r other)"
    using memStores_store_law [of "bGet memStores"] by simp
  have 5: "respWrite memStores bodyPlain = None"
    by (simp add: memStores_def)
  have 6: "db ?wg = db pushedWorld" "blobs ?wg = blobs pushedWorld"
    "StatusCode (resp ?wg) = None" "Written (resp ?wg) = []"
    by (simp_all add: newResponse_def)
  have 7: "bGet memStores (blobs ?wg) ''acme/app'' digestPlain True = Inr (Inr bodyPlain)"
    by (simp add: memStores_def pushedWorld_stores)
  from put_then_get_round_trip [OF 1 2 3 memStores_blob_law 5 6(1-3)]
    example_sha_plain 6(4) 7
  show ?thesis by auto
qed

end
